theory Spec2Isabelle
  imports Complex_Main "HOL-Library.Multiset" "HOL-Library.AList"
begin

section \<open>Data model (app/models)\<close>

text \<open>
  The pydantic models are records, every \<open>Optional\<close> field an \<open>option\<close>. Python \<open>int\<close>
  is \<open>int\<close>, \<open>str\<close> is \<open>string\<close> and a Python \<open>float\<close> (the confidence, a distance, a
  similarity score) is a \<open>real\<close>: rounding is outside the model. The eligibility
  criteria's field \<open>gender\<close> is named \<open>required_gender\<close> here, since the profile has a
  field of the same name. Of a scheme only the fields the services read are kept
  (translations, documents, URLs and dates are never inspected by them).
\<close>

record UserProfile =
  age :: "int option"
  state :: "string option"
  education_level :: "string option"
  income_range :: "string option"
  category :: "string option"
  occupation :: "string option"
  gender :: "string option"

record EligibilityCriteria =
  min_age :: "int option"
  max_age :: "int option"
  states :: "string list option"
  education_levels :: "string list option"
  income_max :: "int option"
  categories :: "string list option"
  required_gender :: "string option"
  occupations :: "string list option"

record Scheme =
  scheme_id :: string
  name :: string
  description :: string
  eligibility :: EligibilityCriteria
  benefits :: string

text \<open>
  The entries of \<open>matching_criteria\<close> and \<open>missing_criteria\<close> are formatted strings in the
  source. Each constructor below stands for one of the templates of
  \<open>check_single_scheme\<close> and carries the values the template interpolates:
  \<^item> \<open>AgeInformationRequired\<close>: "Age information required"
  \<^item> \<open>MinimumAgeRequirement m\<close>: "Minimum age requirement: m years"
  \<^item> \<open>MaximumAgeRequirement m\<close>: "Maximum age requirement: m years"
  \<^item> \<open>AgeWithinRange lo hi\<close>: "Age is within range (lo-hi years)", \<open>hi = None\<close> printed
    as the infinity sign
  \<^item> \<open>StateInformationRequired\<close>, \<open>SchemeOnlyAvailableIn ss\<close>, \<open>StateMatches s\<close>
  \<^item> \<open>EducationInformationRequired\<close>, \<open>RequiredEducation ls\<close>, \<open>EducationLevelMatches l\<close>
  \<^item> \<open>IncomeInformationRequired\<close>, \<open>MaximumIncomeRequirement m\<close>, \<open>IncomeWithinLimit m\<close>
  \<^item> \<open>CategoryInformationRequired\<close>, \<open>SchemeOnlyForCategories cs\<close>, \<open>CategoryMatches c\<close>
  \<^item> \<open>GenderInformationRequired\<close>, \<open>SchemeOnlyForGender g\<close>, \<open>GenderMatches g\<close>
  \<^item> \<open>OccupationInformationRequired\<close>, \<open>SchemeOnlyForOccupations os\<close>,
    \<open>OccupationMatches o\<close>
  The rendering to text (joining with commas, upper-casing, digit grouping) is not
  modelled; no property below depends on it.
\<close>

datatype criterion =
    AgeInformationRequired
  | MinimumAgeRequirement int
  | MaximumAgeRequirement int
  | AgeWithinRange int "int option"
  | StateInformationRequired
  | SchemeOnlyAvailableIn "string list"
  | StateMatches string
  | EducationInformationRequired
  | RequiredEducation "string list"
  | EducationLevelMatches string
  | IncomeInformationRequired
  | MaximumIncomeRequirement int
  | IncomeWithinLimit int
  | CategoryInformationRequired
  | SchemeOnlyForCategories "string list"
  | CategoryMatches string
  | GenderInformationRequired
  | SchemeOnlyForGender string
  | GenderMatches string
  | OccupationInformationRequired
  | SchemeOnlyForOccupations "string list"
  | OccupationMatches string

text \<open>
  The explanation text, by the branch of \<open>generate_eligibility_explanation\<close> that wrote
  it: the scheme's name and the criteria it lists.
\<close>

datatype explanation_text =
    YouAreEligible string "criterion list"
  | YouAreNotEligible string "criterion list"

record EligibilityResult =
  scheme :: Scheme
  is_eligible :: bool
  confidence :: real
  matching_criteria :: "criterion list"
  missing_criteria :: "criterion list"
  explanation :: explanation_text

section \<open>Python values and exceptions\<close>

text \<open>
  A value whose type the source leaves open (the value written to a profile attribute,
  the value of a filter): \<open>None\<close>, an integer or a string.
\<close>

datatype pyval = PyNone | PyInt int | PyStr string

text \<open>
  The exceptions the modelled code can raise: a failed dictionary subscript, a failed
  conversion or a refused argument, a conversion of a value of the wrong type, a failed
  list subscript, and a failed assertion of a library.
\<close>

datatype error = KeyError string | ValueError string | TypeError | IndexError | AssertionError

section \<open>Eligibility engine (app/services/eligibility.py)\<close>

text \<open>
  \<open>INCOME_RANGES\<close> maps a bracket label to its ceiling in rupees per year; the top
  bracket's ceiling is \<open>float('inf')\<close>, here \<open>Unbounded\<close>.
\<close>

datatype income_ceiling = Rupees int | Unbounded

definition INCOME_RANGES :: "string \<Rightarrow> income_ceiling option" where
  "INCOME_RANGES = map_of
     [(''below_1lakh'', Rupees 100000),
      (''1-3lakh'', Rupees 300000),
      (''3-5lakh'', Rupees 500000),
      (''5-8lakh'', Rupees 800000),
      (''above_8lakh'', Unbounded)]"

text \<open>\<open>user_income > eligibility.income_max\<close>: infinity exceeds every integer.\<close>

fun exceeds :: "income_ceiling \<Rightarrow> int \<Rightarrow> bool" where
  "exceeds (Rupees c) m = (c > m)"
| "exceeds Unbounded m = True"

text \<open>
  The comparison the specification words: the ceiling is at most the constraint. It is
  stated on its own, to be compared with what the code tests.
\<close>

fun ceiling_at_most :: "income_ceiling \<Rightarrow> int \<Rightarrow> bool" where
  "ceiling_at_most (Rupees c) m = (c \<le> m)"
| "ceiling_at_most Unbounded m = False"

text \<open>
  The running values of \<open>check_single_scheme\<close>: \<open>matching_criteria\<close>,
  \<open>missing_criteria\<close> and \<open>is_eligible\<close>. Each block of the function ("Check age
  criteria", ...) is one step on them, in the order of the source.
\<close>

type_synonym tally = "criterion list \<times> criterion list \<times> bool"

definition check_age :: "UserProfile \<Rightarrow> EligibilityCriteria \<Rightarrow> tally \<Rightarrow> tally" where
  "check_age p e t =
     (case t of (matching, missing, ok) \<Rightarrow>
        if min_age e \<noteq> None \<or> max_age e \<noteq> None then
          (case age p of
             None \<Rightarrow> (matching, missing @ [AgeInformationRequired], False)
           | Some a \<Rightarrow>
               let below = (case min_age e of None \<Rightarrow> False | Some lo \<Rightarrow> a < lo);
                   above = (case max_age e of None \<Rightarrow> False | Some hi \<Rightarrow> a > hi);
                   missing1 = (case min_age e of
                                 None \<Rightarrow> missing
                               | Some lo \<Rightarrow> if a < lo then missing @ [MinimumAgeRequirement lo]
                                           else missing);
                   missing2 = (case max_age e of
                                 None \<Rightarrow> missing1
                               | Some hi \<Rightarrow> if a > hi then missing1 @ [MaximumAgeRequirement hi]
                                           else missing1)
               in if \<not> below \<and> \<not> above
                  then (matching @
                          [AgeWithinRange (case min_age e of None \<Rightarrow> 0 | Some lo \<Rightarrow> lo)
                             (case max_age e of None \<Rightarrow> None
                              | Some hi \<Rightarrow> if hi = 0 then None else Some hi)],
                        missing2, ok)
                  else (matching, missing2, False))
        else t)"

definition check_state :: "UserProfile \<Rightarrow> EligibilityCriteria \<Rightarrow> tally \<Rightarrow> tally" where
  "check_state p e t =
     (case t of (matching, missing, ok) \<Rightarrow>
        (case states e of
          None \<Rightarrow> t
        | Some allowed \<Rightarrow>
            (case state p of
               None \<Rightarrow> (matching, missing @ [StateInformationRequired], False)
             | Some s \<Rightarrow>
                 if s \<notin> set allowed
                 then (matching, missing @ [SchemeOnlyAvailableIn allowed], False)
                 else (matching @ [StateMatches s], missing, ok))))"

definition check_education :: "UserProfile \<Rightarrow> EligibilityCriteria \<Rightarrow> tally \<Rightarrow> tally" where
  "check_education p e t =
     (case t of (matching, missing, ok) \<Rightarrow>
        (case education_levels e of
          None \<Rightarrow> t
        | Some allowed \<Rightarrow>
            (case education_level p of
               None \<Rightarrow> (matching, missing @ [EducationInformationRequired], False)
             | Some l \<Rightarrow>
                 if l \<notin> set allowed
                 then (matching, missing @ [RequiredEducation allowed], False)
                 else (matching @ [EducationLevelMatches l], missing, ok))))"

definition check_income :: "UserProfile \<Rightarrow> EligibilityCriteria \<Rightarrow> tally \<Rightarrow> tally" where
  "check_income p e t =
     (case t of (matching, missing, ok) \<Rightarrow>
        (case income_max e of
          None \<Rightarrow> t
        | Some limit \<Rightarrow>
            (case income_range p of
               None \<Rightarrow> (matching, missing @ [IncomeInformationRequired], False)
             | Some bracket \<Rightarrow>
                 let user_income = (case INCOME_RANGES bracket of
                                      None \<Rightarrow> Unbounded | Some c \<Rightarrow> c)
                 in if exceeds user_income limit
                    then (matching, missing @ [MaximumIncomeRequirement limit], False)
                    else (matching @ [IncomeWithinLimit limit], missing, ok))))"

definition check_category :: "UserProfile \<Rightarrow> EligibilityCriteria \<Rightarrow> tally \<Rightarrow> tally" where
  "check_category p e t =
     (case t of (matching, missing, ok) \<Rightarrow>
        (case categories e of
          None \<Rightarrow> t
        | Some allowed \<Rightarrow>
            (case category p of
               None \<Rightarrow> (matching, missing @ [CategoryInformationRequired], False)
             | Some c \<Rightarrow>
                 if c \<notin> set allowed
                 then (matching, missing @ [SchemeOnlyForCategories allowed], False)
                 else (matching @ [CategoryMatches c], missing, ok))))"

definition check_gender :: "UserProfile \<Rightarrow> EligibilityCriteria \<Rightarrow> tally \<Rightarrow> tally" where
  "check_gender p e t =
     (case t of (matching, missing, ok) \<Rightarrow>
        (case required_gender e of
          None \<Rightarrow> t
        | Some required \<Rightarrow>
            (case gender p of
               None \<Rightarrow> (matching, missing @ [GenderInformationRequired], False)
             | Some g \<Rightarrow>
                 if g \<noteq> required
                 then (matching, missing @ [SchemeOnlyForGender required], False)
                 else (matching @ [GenderMatches g], missing, ok))))"

definition check_occupation :: "UserProfile \<Rightarrow> EligibilityCriteria \<Rightarrow> tally \<Rightarrow> tally" where
  "check_occupation p e t =
     (case t of (matching, missing, ok) \<Rightarrow>
        (case occupations e of
          None \<Rightarrow> t
        | Some allowed \<Rightarrow>
            (case occupation p of
               None \<Rightarrow> (matching, missing @ [OccupationInformationRequired], False)
             | Some oc \<Rightarrow>
                 if oc \<notin> set allowed
                 then (matching, missing @ [SchemeOnlyForOccupations allowed], False)
                 else (matching @ [OccupationMatches oc], missing, ok))))"

definition generate_eligibility_explanation ::
  "Scheme \<Rightarrow> bool \<Rightarrow> criterion list \<Rightarrow> criterion list \<Rightarrow> explanation_text" where
  "generate_eligibility_explanation s ok matching missing =
     (if ok then YouAreEligible (name s) matching else YouAreNotEligible (name s) missing)"

definition check_all :: "UserProfile \<Rightarrow> EligibilityCriteria \<Rightarrow> tally" where
  "check_all p e =
     check_occupation p e (check_gender p e (check_category p e (check_income p e
       (check_education p e (check_state p e (check_age p e ([], [], True)))))))"

definition check_single_scheme :: "UserProfile \<Rightarrow> Scheme \<Rightarrow> EligibilityResult" where
  "check_single_scheme p s =
     (case check_all p (eligibility s) of (matching, missing, ok) \<Rightarrow>
        let total_criteria = length matching + length missing;
            conf = (if total_criteria > 0
                    then real (length matching) / real total_criteria else 0)
        in \<lparr> scheme = s, is_eligible = ok, confidence = conf,
             matching_criteria = matching, missing_criteria = missing,
             explanation = generate_eligibility_explanation s ok matching missing \<rparr>)"

text \<open>
  \<open>results.sort(key=..., reverse=True)\<close>: Python's sort is stable, and with
  \<open>reverse=True\<close> it sorts the reversed list in ascending order of the key and reverses
  the outcome, so that equal keys keep their original order.
\<close>

definition sort_reverse :: "('a \<Rightarrow> nat) \<Rightarrow> 'a list \<Rightarrow> 'a list" where
  "sort_reverse key xs = rev (sort_key key (rev xs))"

text \<open>The loop of \<open>determine_eligibility\<close> that collects the eligible results.\<close>

fun eligible_results :: "UserProfile \<Rightarrow> Scheme list \<Rightarrow> EligibilityResult list" where
  "eligible_results p [] = []"
| "eligible_results p (s # ss) =
     (let result = check_single_scheme p s
      in if is_eligible result then result # eligible_results p ss
         else eligible_results p ss)"

definition determine_eligibility :: "UserProfile \<Rightarrow> Scheme list \<Rightarrow> EligibilityResult list" where
  "determine_eligibility p ss =
     sort_reverse (\<lambda>r. length (matching_criteria r)) (eligible_results p ss)"

section \<open>Conversation engine (app/models/conversation.py, app/services/conversation.py)\<close>

text \<open>
  A \<open>datetime\<close> is a number of microseconds since a fixed origin and a \<open>timedelta\<close> a
  number of microseconds. The clock is a parameter: an operation that reads
  \<open>datetime.now()\<close> takes the reading \<open>now\<close>, one reading for all the reads of a single
  call.
\<close>

type_synonym datetime = int

type_synonym timedelta = int

record Message =
  role :: string
  content :: string
  timestamp :: datetime

record ConversationState =
  session_id :: string
  language :: string
  user_profile :: UserProfile
  asked_questions :: "string list"
  current_stage :: string
  conversation_history :: "Message list"
  created_at :: datetime
  last_activity :: datetime

text \<open>
  The session store \<open>_sessions\<close> is a dictionary from session identifiers to states: an
  association list in insertion order, whose keys are distinct. A state read from the
  store is the stored object itself, so what an operation does to it is done to the
  store's entry. The operations on a session are functions on the state; the store
  appears where the code reads or writes the dictionary.
\<close>

type_synonym sessions = "(string \<times> ConversationState) list"

definition SESSION_TIMEOUT :: timedelta where
  "SESSION_TIMEOUT = 30 * 60 * 1000000"

subsection \<open>The texts\<close>

text \<open>
  The English texts are the source's literals. The Hindi texts are given by the bytes
  of their UTF-8 encoding.
\<close>

definition utf8 :: "nat list \<Rightarrow> string" where
  "utf8 = map char_of"

definition question_age_en :: string where
  "question_age_en =
     ''How old are you?''"

definition question_age_hi :: string where
  "question_age_hi =
     utf8 [0xE0, 0xA4, 0x86, 0xE0, 0xA4, 0xAA, 0xE0, 0xA4, 0x95, 0xE0, 0xA5, 0x80, 0x20, 0xE0,
           0xA4, 0x89, 0xE0, 0xA4, 0xAE, 0xE0, 0xA5, 0x8D, 0xE0, 0xA4, 0xB0, 0x20, 0xE0, 0xA4,
           0x95, 0xE0, 0xA5, 0x8D, 0xE0, 0xA4, 0xAF, 0xE0, 0xA4, 0xBE, 0x20, 0xE0, 0xA4, 0xB9,
           0xE0, 0xA5, 0x88, 0x3F]"

definition question_state_en :: string where
  "question_state_en =
     ''Which state do you live in?''"

definition question_state_hi :: string where
  "question_state_hi =
     utf8 [0xE0, 0xA4, 0x86, 0xE0, 0xA4, 0xAA, 0x20, 0xE0, 0xA4, 0x95, 0xE0, 0xA4, 0xBF, 0xE0,
           0xA4, 0xB8, 0x20, 0xE0, 0xA4, 0xB0, 0xE0, 0xA4, 0xBE, 0xE0, 0xA4, 0x9C, 0xE0, 0xA5,
           0x8D, 0xE0, 0xA4, 0xAF, 0x20, 0xE0, 0xA4, 0xAE, 0xE0, 0xA5, 0x87, 0xE0, 0xA4, 0x82,
           0x20, 0xE0, 0xA4, 0xB0, 0xE0, 0xA4, 0xB9, 0xE0, 0xA4, 0xA4, 0xE0, 0xA5, 0x87, 0x20,
           0xE0, 0xA4, 0xB9, 0xE0, 0xA5, 0x88, 0xE0, 0xA4, 0x82, 0x3F]"

definition question_education_level_en :: string where
  "question_education_level_en =
     ''What is your highest education level? (e.g., 10th pass, 12th pass, graduate, postgraduate)''"

definition question_education_level_hi :: string where
  "question_education_level_hi =
     utf8 [0xE0, 0xA4, 0x86, 0xE0, 0xA4, 0xAA, 0xE0, 0xA4, 0x95, 0xE0, 0xA5, 0x80, 0x20, 0xE0,
           0xA4, 0x89, 0xE0, 0xA4, 0x9A, 0xE0, 0xA5, 0x8D, 0xE0, 0xA4, 0x9A, 0xE0, 0xA4, 0xA4,
           0xE0, 0xA4, 0xAE, 0x20, 0xE0, 0xA4, 0xB6, 0xE0, 0xA4, 0xBF, 0xE0, 0xA4, 0x95, 0xE0,
           0xA5, 0x8D, 0xE0, 0xA4, 0xB7, 0xE0, 0xA4, 0xBE, 0x20, 0xE0, 0xA4, 0xB8, 0xE0, 0xA5,
           0x8D, 0xE0, 0xA4, 0xA4, 0xE0, 0xA4, 0xB0, 0x20, 0xE0, 0xA4, 0x95, 0xE0, 0xA5, 0x8D,
           0xE0, 0xA4, 0xAF, 0xE0, 0xA4, 0xBE, 0x20, 0xE0, 0xA4, 0xB9, 0xE0, 0xA5, 0x88, 0x3F,
           0x20, 0x28, 0xE0, 0xA4, 0x9C, 0xE0, 0xA5, 0x88, 0xE0, 0xA4, 0xB8, 0xE0, 0xA5, 0x87,
           0x2C, 0x20, 0x31, 0x30, 0xE0, 0xA4, 0xB5, 0xE0, 0xA5, 0x80, 0xE0, 0xA4, 0x82, 0x20,
           0xE0, 0xA4, 0xAA, 0xE0, 0xA4, 0xBE, 0xE0, 0xA4, 0xB8, 0x2C, 0x20, 0x31, 0x32, 0xE0,
           0xA4, 0xB5, 0xE0, 0xA5, 0x80, 0xE0, 0xA4, 0x82, 0x20, 0xE0, 0xA4, 0xAA, 0xE0, 0xA4,
           0xBE, 0xE0, 0xA4, 0xB8, 0x2C, 0x20, 0xE0, 0xA4, 0xB8, 0xE0, 0xA5, 0x8D, 0xE0, 0xA4,
           0xA8, 0xE0, 0xA4, 0xBE, 0xE0, 0xA4, 0xA4, 0xE0, 0xA4, 0x95, 0x2C, 0x20, 0xE0, 0xA4,
           0xB8, 0xE0, 0xA5, 0x8D, 0xE0, 0xA4, 0xA8, 0xE0, 0xA4, 0xBE, 0xE0, 0xA4, 0xA4, 0xE0,
           0xA4, 0x95, 0xE0, 0xA5, 0x8B, 0xE0, 0xA4, 0xA4, 0xE0, 0xA5, 0x8D, 0xE0, 0xA4, 0xA4,
           0xE0, 0xA4, 0xB0, 0x29]"

definition question_income_range_en :: string where
  "question_income_range_en =
     ''What is your annual household income range? (e.g., below 1 lakh, 1-3 lakh, 3-5 lakh, above 5 lakh)''"

definition question_income_range_hi :: string where
  "question_income_range_hi =
     utf8 [0xE0, 0xA4, 0x86, 0xE0, 0xA4, 0xAA, 0xE0, 0xA4, 0x95, 0xE0, 0xA5, 0x80, 0x20, 0xE0,
           0xA4, 0xB5, 0xE0, 0xA4, 0xBE, 0xE0, 0xA4, 0xB0, 0xE0, 0xA5, 0x8D, 0xE0, 0xA4, 0xB7,
           0xE0, 0xA4, 0xBF, 0xE0, 0xA4, 0x95, 0x20, 0xE0, 0xA4, 0x98, 0xE0, 0xA4, 0xB0, 0xE0,
           0xA5, 0x87, 0xE0, 0xA4, 0xB2, 0xE0, 0xA5, 0x82, 0x20, 0xE0, 0xA4, 0x86, 0xE0, 0xA4,
           0xAF, 0x20, 0xE0, 0xA4, 0xB8, 0xE0, 0xA5, 0x80, 0xE0, 0xA4, 0xAE, 0xE0, 0xA4, 0xBE,
           0x20, 0xE0, 0xA4, 0x95, 0xE0, 0xA5, 0x8D, 0xE0, 0xA4, 0xAF, 0xE0, 0xA4, 0xBE, 0x20,
           0xE0, 0xA4, 0xB9, 0xE0, 0xA5, 0x88, 0x3F, 0x20, 0x28, 0xE0, 0xA4, 0x9C, 0xE0, 0xA5,
           0x88, 0xE0, 0xA4, 0xB8, 0xE0, 0xA5, 0x87, 0x2C, 0x20, 0x31, 0x20, 0xE0, 0xA4, 0xB2,
           0xE0, 0xA4, 0xBE, 0xE0, 0xA4, 0x96, 0x20, 0xE0, 0xA4, 0xB8, 0xE0, 0xA5, 0x87, 0x20,
           0xE0, 0xA4, 0x95, 0xE0, 0xA4, 0xAE, 0x2C, 0x20, 0x31, 0x2D, 0x33, 0x20, 0xE0, 0xA4,
           0xB2, 0xE0, 0xA4, 0xBE, 0xE0, 0xA4, 0x96, 0x2C, 0x20, 0x33, 0x2D, 0x35, 0x20, 0xE0,
           0xA4, 0xB2, 0xE0, 0xA4, 0xBE, 0xE0, 0xA4, 0x96, 0x2C, 0x20, 0x35, 0x20, 0xE0, 0xA4,
           0xB2, 0xE0, 0xA4, 0xBE, 0xE0, 0xA4, 0x96, 0x20, 0xE0, 0xA4, 0xB8, 0xE0, 0xA5, 0x87,
           0x20, 0xE0, 0xA4, 0x85, 0xE0, 0xA4, 0xA7, 0xE0, 0xA4, 0xBF, 0xE0, 0xA4, 0x95, 0x29]"

definition question_category_en :: string where
  "question_category_en =
     ''What is your social category? (General, SC, ST, OBC)''"

definition question_category_hi :: string where
  "question_category_hi =
     utf8 [0xE0, 0xA4, 0x86, 0xE0, 0xA4, 0xAA, 0xE0, 0xA4, 0x95, 0xE0, 0xA5, 0x80, 0x20, 0xE0,
           0xA4, 0xB8, 0xE0, 0xA4, 0xBE, 0xE0, 0xA4, 0xAE, 0xE0, 0xA4, 0xBE, 0xE0, 0xA4, 0x9C,
           0xE0, 0xA4, 0xBF, 0xE0, 0xA4, 0x95, 0x20, 0xE0, 0xA4, 0xB6, 0xE0, 0xA5, 0x8D, 0xE0,
           0xA4, 0xB0, 0xE0, 0xA5, 0x87, 0xE0, 0xA4, 0xA3, 0xE0, 0xA5, 0x80, 0x20, 0xE0, 0xA4,
           0x95, 0xE0, 0xA5, 0x8D, 0xE0, 0xA4, 0xAF, 0xE0, 0xA4, 0xBE, 0x20, 0xE0, 0xA4, 0xB9,
           0xE0, 0xA5, 0x88, 0x3F, 0x20, 0x28, 0xE0, 0xA4, 0xB8, 0xE0, 0xA4, 0xBE, 0xE0, 0xA4,
           0xAE, 0xE0, 0xA4, 0xBE, 0xE0, 0xA4, 0xA8, 0xE0, 0xA5, 0x8D, 0xE0, 0xA4, 0xAF, 0x2C,
           0x20, 0xE0, 0xA4, 0x85, 0xE0, 0xA4, 0xA8, 0xE0, 0xA5, 0x81, 0xE0, 0xA4, 0xB8, 0xE0,
           0xA5, 0x82, 0xE0, 0xA4, 0x9A, 0xE0, 0xA4, 0xBF, 0xE0, 0xA4, 0xA4, 0x20, 0xE0, 0xA4,
           0x9C, 0xE0, 0xA4, 0xBE, 0xE0, 0xA4, 0xA4, 0xE0, 0xA4, 0xBF, 0x2C, 0x20, 0xE0, 0xA4,
           0x85, 0xE0, 0xA4, 0xA8, 0xE0, 0xA5, 0x81, 0xE0, 0xA4, 0xB8, 0xE0, 0xA5, 0x82, 0xE0,
           0xA4, 0x9A, 0xE0, 0xA4, 0xBF, 0xE0, 0xA4, 0xA4, 0x20, 0xE0, 0xA4, 0x9C, 0xE0, 0xA4,
           0xA8, 0xE0, 0xA4, 0x9C, 0xE0, 0xA4, 0xBE, 0xE0, 0xA4, 0xA4, 0xE0, 0xA4, 0xBF, 0x2C,
           0x20, 0xE0, 0xA4, 0x85, 0xE0, 0xA4, 0xA8, 0xE0, 0xA5, 0x8D, 0xE0, 0xA4, 0xAF, 0x20,
           0xE0, 0xA4, 0xAA, 0xE0, 0xA4, 0xBF, 0xE0, 0xA4, 0x9B, 0xE0, 0xA4, 0xA1, 0xE0, 0xA4,
           0xBC, 0xE0, 0xA4, 0xBE, 0x20, 0xE0, 0xA4, 0xB5, 0xE0, 0xA4, 0xB0, 0xE0, 0xA5, 0x8D,
           0xE0, 0xA4, 0x97, 0x29]"

definition question_gender_en :: string where
  "question_gender_en =
     ''What is your gender? (male, female, other)''"

definition question_gender_hi :: string where
  "question_gender_hi =
     utf8 [0xE0, 0xA4, 0x86, 0xE0, 0xA4, 0xAA, 0xE0, 0xA4, 0x95, 0xE0, 0xA4, 0xBE, 0x20, 0xE0,
           0xA4, 0xB2, 0xE0, 0xA4, 0xBF, 0xE0, 0xA4, 0x82, 0xE0, 0xA4, 0x97, 0x20, 0xE0, 0xA4,
           0x95, 0xE0, 0xA5, 0x8D, 0xE0, 0xA4, 0xAF, 0xE0, 0xA4, 0xBE, 0x20, 0xE0, 0xA4, 0xB9,
           0xE0, 0xA5, 0x88, 0x3F, 0x20, 0x28, 0xE0, 0xA4, 0xAA, 0xE0, 0xA5, 0x81, 0xE0, 0xA4,
           0xB0, 0xE0, 0xA5, 0x81, 0xE0, 0xA4, 0xB7, 0x2C, 0x20, 0xE0, 0xA4, 0xAE, 0xE0, 0xA4,
           0xB9, 0xE0, 0xA4, 0xBF, 0xE0, 0xA4, 0xB2, 0xE0, 0xA4, 0xBE, 0x2C, 0x20, 0xE0, 0xA4,
           0x85, 0xE0, 0xA4, 0xA8, 0xE0, 0xA5, 0x8D, 0xE0, 0xA4, 0xAF, 0x29]"

definition question_occupation_en :: string where
  "question_occupation_en =
     ''What is your occupation? (e.g., student, farmer, self-employed, unemployed)''"

definition question_occupation_hi :: string where
  "question_occupation_hi =
     utf8 [0xE0, 0xA4, 0x86, 0xE0, 0xA4, 0xAA, 0xE0, 0xA4, 0x95, 0xE0, 0xA4, 0xBE, 0x20, 0xE0,
           0xA4, 0xB5, 0xE0, 0xA5, 0x8D, 0xE0, 0xA4, 0xAF, 0xE0, 0xA4, 0xB5, 0xE0, 0xA4, 0xB8,
           0xE0, 0xA4, 0xBE, 0xE0, 0xA4, 0xAF, 0x20, 0xE0, 0xA4, 0x95, 0xE0, 0xA5, 0x8D, 0xE0,
           0xA4, 0xAF, 0xE0, 0xA4, 0xBE, 0x20, 0xE0, 0xA4, 0xB9, 0xE0, 0xA5, 0x88, 0x3F, 0x20,
           0x28, 0xE0, 0xA4, 0x9C, 0xE0, 0xA5, 0x88, 0xE0, 0xA4, 0xB8, 0xE0, 0xA5, 0x87, 0x2C,
           0x20, 0xE0, 0xA4, 0x9B, 0xE0, 0xA4, 0xBE, 0xE0, 0xA4, 0xA4, 0xE0, 0xA5, 0x8D, 0xE0,
           0xA4, 0xB0, 0x2C, 0x20, 0xE0, 0xA4, 0x95, 0xE0, 0xA4, 0xBF, 0xE0, 0xA4, 0xB8, 0xE0,
           0xA4, 0xBE, 0xE0, 0xA4, 0xA8, 0x2C, 0x20, 0xE0, 0xA4, 0xB8, 0xE0, 0xA5, 0x8D, 0xE0,
           0xA4, 0xB5, 0x2D, 0xE0, 0xA4, 0xB0, 0xE0, 0xA5, 0x8B, 0xE0, 0xA4, 0x9C, 0xE0, 0xA4,
           0x97, 0xE0, 0xA4, 0xBE, 0xE0, 0xA4, 0xB0, 0x2C, 0x20, 0xE0, 0xA4, 0xAC, 0xE0, 0xA5,
           0x87, 0xE0, 0xA4, 0xB0, 0xE0, 0xA5, 0x8B, 0xE0, 0xA4, 0x9C, 0xE0, 0xA4, 0x97, 0xE0,
           0xA4, 0xBE, 0xE0, 0xA4, 0xB0, 0x29]"

definition greeting_en :: string where
  "greeting_en =
     ''Hello! I'm Bharatam AI, your assistant for discovering government welfare schemes. I'll ask you a few questions to understand your needs and find schemes you're eligible for. Let's get started!''"

definition greeting_hi :: string where
  "greeting_hi =
     utf8 [0xE0, 0xA4, 0xA8, 0xE0, 0xA4, 0xAE, 0xE0, 0xA4, 0xB8, 0xE0, 0xA5, 0x8D, 0xE0, 0xA4,
           0xA4, 0xE0, 0xA5, 0x87, 0x21, 0x20, 0xE0, 0xA4, 0xAE, 0xE0, 0xA5, 0x88, 0xE0, 0xA4,
           0x82, 0x20, 0xE0, 0xA4, 0xAD, 0xE0, 0xA4, 0xBE, 0xE0, 0xA4, 0xB0, 0xE0, 0xA4, 0xA4,
           0xE0, 0xA4, 0xAE, 0x20, 0x41, 0x49, 0x20, 0xE0, 0xA4, 0xB9, 0xE0, 0xA5, 0x82, 0xE0,
           0xA4, 0x82, 0x2C, 0x20, 0xE0, 0xA4, 0xB8, 0xE0, 0xA4, 0xB0, 0xE0, 0xA4, 0x95, 0xE0,
           0xA4, 0xBE, 0xE0, 0xA4, 0xB0, 0xE0, 0xA5, 0x80, 0x20, 0xE0, 0xA4, 0x95, 0xE0, 0xA4,
           0xB2, 0xE0, 0xA5, 0x8D, 0xE0, 0xA4, 0xAF, 0xE0, 0xA4, 0xBE, 0xE0, 0xA4, 0xA3, 0x20,
           0xE0, 0xA4, 0xAF, 0xE0, 0xA5, 0x8B, 0xE0, 0xA4, 0x9C, 0xE0, 0xA4, 0xA8, 0xE0, 0xA4,
           0xBE, 0xE0, 0xA4, 0x93, 0xE0, 0xA4, 0x82, 0x20, 0xE0, 0xA4, 0x95, 0xE0, 0xA5, 0x80,
           0x20, 0xE0, 0xA4, 0x96, 0xE0, 0xA5, 0x8B, 0xE0, 0xA4, 0x9C, 0x20, 0xE0, 0xA4, 0x95,
           0xE0, 0xA5, 0x87, 0x20, 0xE0, 0xA4, 0xB2, 0xE0, 0xA4, 0xBF, 0xE0, 0xA4, 0x8F, 0x20,
           0xE0, 0xA4, 0x86, 0xE0, 0xA4, 0xAA, 0xE0, 0xA4, 0x95, 0xE0, 0xA4, 0xBE, 0x20, 0xE0,
           0xA4, 0xB8, 0xE0, 0xA4, 0xB9, 0xE0, 0xA4, 0xBE, 0xE0, 0xA4, 0xAF, 0xE0, 0xA4, 0x95,
           0xE0, 0xA5, 0xA4, 0x20, 0xE0, 0xA4, 0xAE, 0xE0, 0xA5, 0x88, 0xE0, 0xA4, 0x82, 0x20,
           0xE0, 0xA4, 0x86, 0xE0, 0xA4, 0xAA, 0xE0, 0xA4, 0x95, 0xE0, 0xA5, 0x80, 0x20, 0xE0,
           0xA4, 0x86, 0xE0, 0xA4, 0xB5, 0xE0, 0xA4, 0xB6, 0xE0, 0xA5, 0x8D, 0xE0, 0xA4, 0xAF,
           0xE0, 0xA4, 0x95, 0xE0, 0xA4, 0xA4, 0xE0, 0xA4, 0xBE, 0xE0, 0xA4, 0x93, 0xE0, 0xA4,
           0x82, 0x20, 0xE0, 0xA4, 0x95, 0xE0, 0xA5, 0x8B, 0x20, 0xE0, 0xA4, 0xB8, 0xE0, 0xA4,
           0xAE, 0xE0, 0xA4, 0x9D, 0xE0, 0xA4, 0xA8, 0xE0, 0xA5, 0x87, 0x20, 0xE0, 0xA4, 0x94,
           0xE0, 0xA4, 0xB0, 0x20, 0xE0, 0xA4, 0x86, 0xE0, 0xA4, 0xAA, 0xE0, 0xA4, 0x95, 0xE0,
           0xA5, 0x87, 0x20, 0xE0, 0xA4, 0xB2, 0xE0, 0xA4, 0xBF, 0xE0, 0xA4, 0x8F, 0x20, 0xE0,
           0xA4, 0x89, 0xE0, 0xA4, 0xAA, 0xE0, 0xA4, 0xAF, 0xE0, 0xA5, 0x81, 0xE0, 0xA4, 0x95,
           0xE0, 0xA5, 0x8D, 0xE0, 0xA4, 0xA4, 0x20, 0xE0, 0xA4, 0xAF, 0xE0, 0xA5, 0x8B, 0xE0,
           0xA4, 0x9C, 0xE0, 0xA4, 0xA8, 0xE0, 0xA4, 0xBE, 0xE0, 0xA4, 0x93, 0xE0, 0xA4, 0x82,
           0x20, 0xE0, 0xA4, 0x95, 0xE0, 0xA5, 0x8B, 0x20, 0xE0, 0xA4, 0x96, 0xE0, 0xA5, 0x8B,
           0xE0, 0xA4, 0x9C, 0xE0, 0xA4, 0xA8, 0xE0, 0xA5, 0x87, 0x20, 0xE0, 0xA4, 0x95, 0xE0,
           0xA5, 0x87, 0x20, 0xE0, 0xA4, 0xB2, 0xE0, 0xA4, 0xBF, 0xE0, 0xA4, 0x8F, 0x20, 0xE0,
           0xA4, 0x95, 0xE0, 0xA5, 0x81, 0xE0, 0xA4, 0x9B, 0x20, 0xE0, 0xA4, 0xAA, 0xE0, 0xA5,
           0x8D, 0xE0, 0xA4, 0xB0, 0xE0, 0xA4, 0xB6, 0xE0, 0xA5, 0x8D, 0xE0, 0xA4, 0xA8, 0x20,
           0xE0, 0xA4, 0xAA, 0xE0, 0xA5, 0x82, 0xE0, 0xA4, 0x9B, 0xE0, 0xA5, 0x82, 0xE0, 0xA4,
           0x82, 0xE0, 0xA4, 0x97, 0xE0, 0xA4, 0xBE, 0xE0, 0xA5, 0xA4, 0x20, 0xE0, 0xA4, 0x9A,
           0xE0, 0xA4, 0xB2, 0xE0, 0xA4, 0xBF, 0xE0, 0xA4, 0x8F, 0x20, 0xE0, 0xA4, 0xB6, 0xE0,
           0xA5, 0x81, 0xE0, 0xA4, 0xB0, 0xE0, 0xA5, 0x82, 0x20, 0xE0, 0xA4, 0x95, 0xE0, 0xA4,
           0xB0, 0xE0, 0xA4, 0xA4, 0xE0, 0xA5, 0x87, 0x20, 0xE0, 0xA4, 0xB9, 0xE0, 0xA5, 0x88,
           0xE0, 0xA4, 0x82, 0x21]"

definition QUESTIONS :: "string \<Rightarrow> (string \<Rightarrow> string option) option" where
  "QUESTIONS = map_of
     [(''age'', map_of [(''en'', question_age_en), (''hi'', question_age_hi)]),
      (''state'', map_of [(''en'', question_state_en), (''hi'', question_state_hi)]),
      (''education_level'',
         map_of [(''en'', question_education_level_en), (''hi'', question_education_level_hi)]),
      (''income_range'',
         map_of [(''en'', question_income_range_en), (''hi'', question_income_range_hi)]),
      (''category'', map_of [(''en'', question_category_en), (''hi'', question_category_hi)]),
      (''gender'', map_of [(''en'', question_gender_en), (''hi'', question_gender_hi)]),
      (''occupation'',
         map_of [(''en'', question_occupation_en), (''hi'', question_occupation_hi)])]"

definition GREETINGS :: "string \<Rightarrow> string option" where
  "GREETINGS = map_of [(''en'', greeting_en), (''hi'', greeting_hi)]"

text \<open>A dictionary subscript \<open>d[k]\<close>, which raises \<open>KeyError\<close> on a missing key.\<close>

definition subscript :: "(string \<Rightarrow> 'v option) \<Rightarrow> string \<Rightarrow> error + 'v" where
  "subscript d k = (case d k of None \<Rightarrow> Inl (KeyError k) | Some v \<Rightarrow> Inr v)"

text \<open>
  \<open>table.get(language, table["en"])\<close>: the default is evaluated first, whether it is
  needed or not.
\<close>

definition localized :: "(string \<Rightarrow> string option) \<Rightarrow> string \<Rightarrow> error + string" where
  "localized table lang =
     (case subscript table ''en'' of
        Inl e \<Rightarrow> Inl e
      | Inr fallback \<Rightarrow> Inr (case table lang of None \<Rightarrow> fallback | Some t \<Rightarrow> t))"

text \<open>\<open>self.QUESTIONS[field_name].get(language, self.QUESTIONS[field_name]["en"])\<close>\<close>

definition question_text :: "string \<Rightarrow> string \<Rightarrow> error + string" where
  "question_text field_name lang =
     (case subscript QUESTIONS field_name of
        Inl e \<Rightarrow> Inl e
      | Inr table \<Rightarrow> localized table lang)"

subsection \<open>Sessions\<close>

text \<open>\<open>_add_message\<close> (an Isabelle name cannot start with an underscore).\<close>

definition add_message ::
  "datetime \<Rightarrow> ConversationState \<Rightarrow> string \<Rightarrow> string \<Rightarrow> ConversationState" where
  "add_message now s r c =
     s\<lparr>conversation_history :=
         conversation_history s @ [\<lparr>role = r, content = c, timestamp = now\<rparr>],
       last_activity := now\<rparr>"

definition add_user_message :: "datetime \<Rightarrow> ConversationState \<Rightarrow> string \<Rightarrow> ConversationState" where
  "add_user_message now s c = add_message now s ''user'' c"

definition add_assistant_message ::
  "datetime \<Rightarrow> ConversationState \<Rightarrow> string \<Rightarrow> ConversationState" where
  "add_assistant_message now s c = add_message now s ''assistant'' c"

text \<open>
  \<open>start_conversation\<close>, with the identifier \<open>uuid4()\<close> produced as a parameter. The state
  is stored and then receives the greeting; the store holds the same object, so the
  stored state is the one with the greeting. The keyword \<open>last_updated\<close> is not a field
  of the model and is ignored by it; \<open>last_activity\<close> starts at the current time by its
  default.
\<close>

definition start_conversation ::
  "string \<Rightarrow> datetime \<Rightarrow> string \<Rightarrow> sessions \<Rightarrow> (error + ConversationState) \<times> sessions" where
  "start_conversation sid now lang ss =
     (let st = \<lparr> session_id = sid, language = lang,
                  user_profile = \<lparr> age = None, state = None, education_level = None,
                    income_range = None, category = None, occupation = None, gender = None \<rparr>,
                  asked_questions = [], current_stage = ''greeting'',
                  conversation_history = [], created_at = now, last_activity = now \<rparr>
      in case localized GREETINGS lang of
           Inl e \<Rightarrow> (Inl e, AList.update sid st ss)
         | Inr greeting \<Rightarrow>
             (let st' = add_message now st ''assistant'' greeting
              in (Inr st', AList.update sid st' ss)))"

definition end_conversation :: "string \<Rightarrow> sessions \<Rightarrow> bool \<times> sessions" where
  "end_conversation sid ss =
     (if map_of ss sid \<noteq> None then (True, AList.delete sid ss) else (False, ss))"

definition get_session ::
  "datetime \<Rightarrow> string \<Rightarrow> sessions \<Rightarrow> ConversationState option \<times> sessions" where
  "get_session now sid ss =
     (case map_of ss sid of
        None \<Rightarrow> (None, ss)
      | Some st \<Rightarrow>
          if now - last_activity st > SESSION_TIMEOUT
          then (None, snd (end_conversation sid ss))
          else (Some st, ss))"

definition cleanup_expired_sessions :: "datetime \<Rightarrow> sessions \<Rightarrow> nat \<times> sessions" where
  "cleanup_expired_sessions now ss =
     (let expired = map fst (filter (\<lambda>(sid, st). now - last_activity st > SESSION_TIMEOUT) ss)
      in (length expired, fold AList.delete expired ss))"

definition get_active_sessions_count :: "sessions \<Rightarrow> nat" where
  "get_active_sessions_count ss = length ss"

subsection \<open>The guided questions\<close>

text \<open>
  \<open>question_order\<close>: the field names in priority order, each with whether the profile's
  value \<open>is None\<close>.
\<close>

definition question_order :: "UserProfile \<Rightarrow> (string \<times> bool) list" where
  "question_order p =
     [(''age'', age p = None),
      (''state'', state p = None),
      (''education_level'', education_level p = None),
      (''income_range'', income_range p = None),
      (''category'', category p = None),
      (''gender'', gender p = None),
      (''occupation'', occupation p = None)]"

text \<open>
  The loop of \<open>get_next_question\<close>: the first field that is unset and not in
  \<open>asked_questions\<close>.
\<close>

fun first_to_ask :: "(string \<times> bool) list \<Rightarrow> string list \<Rightarrow> string option" where
  "first_to_ask [] asked = None"
| "first_to_ask ((field_name, is_none) # rest) asked =
     (if is_none \<and> field_name \<notin> set asked then Some field_name
      else first_to_ask rest asked)"

text \<open>
  \<open>get_next_question\<close> returns the question (or \<open>None\<close>) and leaves the state changed:
  the result is paired with the state after the call. The field is marked as asked
  before the text is looked up.
\<close>

definition get_next_question ::
  "ConversationState \<Rightarrow> (error + string option) \<times> ConversationState" where
  "get_next_question s0 =
     (let s = (if current_stage s0 = ''greeting''
               then s0\<lparr>current_stage := ''info_collection''\<rparr> else s0)
      in if current_stage s \<noteq> ''info_collection'' then (Inr None, s)
         else
           (case first_to_ask (question_order (user_profile s)) (asked_questions s) of
              None \<Rightarrow> (Inr None, s)
            | Some field_name \<Rightarrow>
                (let s' = s\<lparr>asked_questions := asked_questions s @ [field_name]\<rparr>
                 in case question_text field_name (language s') of
                      Inl e \<Rightarrow> (Inl e, s')
                    | Inr q \<Rightarrow> (Inr (Some q), s'))))"

definition is_information_complete :: "ConversationState \<Rightarrow> bool" where
  "is_information_complete s =
     (\<not> (age (user_profile s) = None \<or> state (user_profile s) = None))"

text \<open>
  \<open>update_user_profile\<close> works through the built-ins \<open>hasattr\<close> and \<open>setattr\<close>, which
  are parameters here; \<open>setattr\<close> may raise (pydantic refuses a name that is not a
  field), and then nothing has been written.
\<close>

definition update_user_profile ::
  "(UserProfile \<Rightarrow> string \<Rightarrow> bool) \<Rightarrow> (UserProfile \<Rightarrow> string \<Rightarrow> 'v \<Rightarrow> error + UserProfile)
     \<Rightarrow> datetime \<Rightarrow> ConversationState \<Rightarrow> string \<Rightarrow> 'v \<Rightarrow> (error + unit) \<times> ConversationState" where
  "update_user_profile hasattr setattr now s field v =
     (if hasattr (user_profile s) field then
        (case setattr (user_profile s) field v of
           Inl e \<Rightarrow> (Inl e, s)
         | Inr p \<Rightarrow> (Inr (), s\<lparr>user_profile := p, last_activity := now\<rparr>))
      else (Inr (), s))"

definition transition_to_eligibility :: "datetime \<Rightarrow> ConversationState \<Rightarrow> ConversationState" where
  "transition_to_eligibility now s =
     (if is_information_complete s
      then s\<lparr>current_stage := ''eligibility'', last_activity := now\<rparr> else s)"

definition transition_to_guidance :: "datetime \<Rightarrow> ConversationState \<Rightarrow> ConversationState" where
  "transition_to_guidance now s = s\<lparr>current_stage := ''guidance'', last_activity := now\<rparr>"

section \<open>Knowledge base (app/services/knowledge_base.py)\<close>

text \<open>
  The sentence encoder and the FAISS index are libraries outside the repository. An
  embedding is a list of reals. The state of an \<open>IndexFlatL2\<close> is the list of the
  vectors added to it, in the order of addition. The encoder (\<open>self.model.encode\<close>, one
  text at a time) and the search (\<open>self.index.search\<close> for one query vector, returning
  the pairs of a position and a distance in the order the index reports them) are
  parameters of the operations that call them.
\<close>

type_synonym vector = "real list"

type_synonym encoder = "string \<Rightarrow> vector"

type_synonym searcher = "vector list \<Rightarrow> vector \<Rightarrow> int \<Rightarrow> error + (int \<times> real) list"

record KnowledgeBase =
  schemes :: "Scheme list"
  index :: "vector list"

definition create_searchable_text :: "Scheme \<Rightarrow> string" where
  "create_searchable_text s =
     name s @ '' '' @ description s @ '' '' @ (''Benefits: '' @ benefits s)"

text \<open>
  \<open>index_schemes\<close> raises on an empty list before it writes anything; otherwise it
  stores the schemes and replaces the index by a new one holding their embeddings. The
  result is paired with the knowledge base after the call.
\<close>

definition index_schemes ::
  "encoder \<Rightarrow> Scheme list \<Rightarrow> KnowledgeBase \<Rightarrow> (error + unit) \<times> KnowledgeBase" where
  "index_schemes encode ss kb =
     (if ss = [] then (Inl (ValueError ''Cannot index empty scheme list''), kb)
      else (Inr (), kb\<lparr>schemes := ss, index := map (\<lambda>s. encode (create_searchable_text s)) ss\<rparr>))"

text \<open>
  A filter dictionary, in iteration order. Its values are annotated as strings; the API
  layer also passes integers for the ages.
\<close>

type_synonym filters = "(string \<times> pyval) list"

text \<open>
  \<open>int(value)\<close>: an integer is itself, \<open>None\<close> raises \<open>TypeError\<close>, and a string is parsed
  by Python's conversion, a parameter \<open>to_int\<close> that may raise \<open>ValueError\<close>.
\<close>

fun int_of_value :: "(string \<Rightarrow> error + int) \<Rightarrow> pyval \<Rightarrow> error + int" where
  "int_of_value to_int (PyInt i) = Inr i"
| "int_of_value to_int (PyStr s) = to_int s"
| "int_of_value to_int PyNone = Inl TypeError"

text \<open>\<open>value not in scheme.eligibility.states\<close>: only a string can be in a list of strings.\<close>

fun not_in_states :: "pyval \<Rightarrow> string list \<Rightarrow> bool" where
  "not_in_states (PyStr v) allowed = (v \<notin> set allowed)"
| "not_in_states (PyInt i) allowed = True"
| "not_in_states PyNone allowed = True"

text \<open>
  \<open>_matches_filters\<close>. An optional list is truthy when it is present and not empty, an
  optional integer when it is present and not zero; \<open>and\<close> evaluates \<open>int(value)\<close> only
  then.
\<close>

fun matches_filters :: "(string \<Rightarrow> error + int) \<Rightarrow> Scheme \<Rightarrow> filters \<Rightarrow> error + bool" where
  "matches_filters to_int s [] = Inr True"
| "matches_filters to_int s ((key, v) # rest) =
     (if key = ''state'' then
        (case states (eligibility s) of
           None \<Rightarrow> matches_filters to_int s rest
         | Some allowed \<Rightarrow>
             if allowed \<noteq> [] \<and> not_in_states v allowed then Inr False
             else matches_filters to_int s rest)
      else if key = ''category'' then matches_filters to_int s rest
      else if key = ''min_age'' then
        (case min_age (eligibility s) of
           None \<Rightarrow> matches_filters to_int s rest
         | Some lo \<Rightarrow>
             if lo \<noteq> 0 then
               (case int_of_value to_int v of
                  Inl e \<Rightarrow> Inl e
                | Inr a \<Rightarrow> if lo > a then Inr False else matches_filters to_int s rest)
             else matches_filters to_int s rest)
      else if key = ''max_age'' then
        (case max_age (eligibility s) of
           None \<Rightarrow> matches_filters to_int s rest
         | Some hi \<Rightarrow>
             if hi \<noteq> 0 then
               (case int_of_value to_int v of
                  Inl e \<Rightarrow> Inl e
                | Inr a \<Rightarrow> if hi < a then Inr False else matches_filters to_int s rest)
             else matches_filters to_int s rest)
      else matches_filters to_int s rest)"

text \<open>
  \<open>if filters: if not self._matches_filters(scheme, filters): continue\<close>: whether a
  candidate is admitted. A missing or empty dictionary admits every candidate.
\<close>

definition admitted :: "(string \<Rightarrow> error + int) \<Rightarrow> Scheme \<Rightarrow> filters option \<Rightarrow> error + bool" where
  "admitted to_int s fo =
     (case fo of
        None \<Rightarrow> Inr True
      | Some fs \<Rightarrow> if fs = [] then Inr True else matches_filters to_int s fs)"

text \<open>\<open>self.schemes[idx]\<close>: a negative position counts from the end of the list.\<close>

definition list_item :: "'a list \<Rightarrow> int \<Rightarrow> error + 'a" where
  "list_item xs i =
     (if 0 \<le> i \<and> i < int (length xs) then Inr (xs ! nat i)
      else if i < 0 \<and> - int (length xs) \<le> i then Inr (xs ! nat (int (length xs) + i))
      else Inl IndexError)"

text \<open>The conversion of a distance to a similarity score.\<close>

definition similarity :: "real \<Rightarrow> real" where
  "similarity distance = 1 / (1 + distance)"

text \<open>
  The loop of \<open>retrieve_schemes\<close> over the candidates, with the \<open>results\<close> collected so
  far: it ends at the end of the candidates, or as soon as \<open>top_k\<close> results are there.
\<close>

fun collect_results ::
  "(string \<Rightarrow> error + int) \<Rightarrow> Scheme list \<Rightarrow> filters option \<Rightarrow> int \<Rightarrow> (int \<times> real) list
     \<Rightarrow> (Scheme \<times> real) list \<Rightarrow> error + (Scheme \<times> real) list" where
  "collect_results to_int ss fo top_k [] results = Inr results"
| "collect_results to_int ss fo top_k ((idx, distance) # rest) results =
     (if idx < int (length ss) then
        (case list_item ss idx of
           Inl e \<Rightarrow> Inl e
         | Inr s \<Rightarrow>
             (case admitted to_int s fo of
                Inl e \<Rightarrow> Inl e
              | Inr ok \<Rightarrow>
                  if \<not> ok then collect_results to_int ss fo top_k rest results
                  else
                    (let results' = results @ [(s, similarity distance)]
                     in if int (length results') \<ge> top_k then Inr results'
                        else collect_results to_int ss fo top_k rest results')))
      else collect_results to_int ss fo top_k rest results)"

definition retrieve_schemes ::
  "encoder \<Rightarrow> searcher \<Rightarrow> (string \<Rightarrow> error + int) \<Rightarrow> KnowledgeBase \<Rightarrow> string \<Rightarrow> int
     \<Rightarrow> filters option \<Rightarrow> error + (Scheme \<times> real) list" where
  "retrieve_schemes encode search to_int kb query top_k fo =
     (if schemes kb = [] then Inr []
      else
        (case search (index kb) (encode query) (min (top_k * 2) (int (length (schemes kb)))) of
           Inl e \<Rightarrow> Inl e
         | Inr found \<Rightarrow> collect_results to_int (schemes kb) fo top_k found []))"

section \<open>Notions used in the statements\<close>

text \<open>A rule set that restricts nothing: every constraint is absent.\<close>

definition no_constraints :: "EligibilityCriteria \<Rightarrow> bool" where
  "no_constraints e =
     (min_age e = None \<and> max_age e = None \<and> states e = None \<and> education_levels e = None
      \<and> income_max e = None \<and> categories e = None \<and> required_gender e = None
      \<and> occupations e = None)"

text \<open>
  Sample data for the concrete instances below: \<open>new_profile\<close> is \<open>UserProfile()\<close>,
  \<open>unrestricted\<close> is \<open>EligibilityCriteria()\<close>, and \<open>sample_scheme i e\<close> is a scheme with
  identifier \<open>i\<close> and rule set \<open>e\<close>.
\<close>

definition unrestricted :: EligibilityCriteria where
  "unrestricted = \<lparr> min_age = None, max_age = None, states = None, education_levels = None,
     income_max = None, categories = None, required_gender = None, occupations = None \<rparr>"

definition new_profile :: UserProfile where
  "new_profile = \<lparr> age = None, state = None, education_level = None, income_range = None,
     category = None, occupation = None, gender = None \<rparr>"

definition sample_scheme :: "string \<Rightarrow> EligibilityCriteria \<Rightarrow> Scheme" where
  "sample_scheme i e = \<lparr> scheme_id = i, name = i, description = [], eligibility = e,
     benefits = [] \<rparr>"

text \<open>
  A tally has failed with an item when the item is in its list of missing criteria and
  its verdict is ineligible.
\<close>

definition failed_with :: "criterion \<Rightarrow> tally \<Rightarrow> bool" where
  "failed_with x t = (x \<in> set (fst (snd t)) \<and> \<not> snd (snd t))"

text \<open>Successive calls of \<open>get_next_question\<close> on one session, with their results.\<close>

fun next_questions ::
  "nat \<Rightarrow> ConversationState \<Rightarrow> (error + string option) list \<times> ConversationState" where
  "next_questions 0 s = ([], s)"
| "next_questions (Suc n) s =
     (case get_next_question s of (r, s') \<Rightarrow>
        (case next_questions n s' of (rs, s'') \<Rightarrow> (r # rs, s'')))"

text \<open>
  The seven prompts in each language, and the field names, in the priority order of
  \<open>get_next_question\<close>.
\<close>

definition prompts_en :: "string list" where
  "prompts_en = [question_age_en, question_state_en, question_education_level_en,
     question_income_range_en, question_category_en, question_gender_en,
     question_occupation_en]"

definition prompts_hi :: "string list" where
  "prompts_hi = [question_age_hi, question_state_hi, question_education_level_hi,
     question_income_range_hi, question_category_hi, question_gender_hi,
     question_occupation_hi]"

definition priority_order :: "string list" where
  "priority_order = [''age'', ''state'', ''education_level'', ''income_range'', ''category'',
     ''gender'', ''occupation'']"

text \<open>
  A session as a new conversation has it, before the greeting is added: stage
  \<open>greeting\<close>, an empty profile, nothing asked, created and last active at \<open>t\<close>.
\<close>

definition sample_session :: "string \<Rightarrow> datetime \<Rightarrow> ConversationState" where
  "sample_session sid t =
     \<lparr> session_id = sid, language = ''en'', user_profile = new_profile, asked_questions = [],
       current_stage = ''greeting'', conversation_history = [], created_at = t,
       last_activity = t \<rparr>"

text \<open>
  An instance of the built-ins \<open>hasattr\<close> and \<open>setattr\<close> for a \<open>UserProfile\<close> object.
  The seven fields are attributes, whether set or not, and a write to one of them
  stores the value: the model does not validate assignments. The value of a write is
  given as a pair, the integer to store when the attribute is \<open>age\<close> and the text to
  store when it is one of the six text fields; these are the writes of a value of the
  field's declared type, the ones the typed record can hold. What the object does for
  every other name (its methods, what it inherits from \<open>BaseModel\<close>, and the names it
  does not know) is the parameter \<open>others\<close>: the object has no such attribute and a
  write raises \<open>e\<close> (\<open>NoAttribute e\<close>), or it has the attribute and a write is accepted
  and changes no field (\<open>Accepted\<close>), or it has the attribute and a write raises \<open>e\<close>
  (\<open>Refused e\<close>).
\<close>

type_synonym typed_value = "int option \<times> string option"

datatype other_attribute = NoAttribute error | Accepted | Refused error

type_synonym other_attributes = "string \<Rightarrow> other_attribute"

definition profile_fields :: "string list" where
  "profile_fields = [''age'', ''state'', ''education_level'', ''income_range'', ''category'',
     ''occupation'', ''gender'']"

definition object_hasattr :: "other_attributes \<Rightarrow> UserProfile \<Rightarrow> string \<Rightarrow> bool" where
  "object_hasattr others p attr =
     (attr \<in> set profile_fields
      \<or> (case others attr of NoAttribute e \<Rightarrow> False | Accepted \<Rightarrow> True | Refused e \<Rightarrow> True))"

definition object_setattr ::
  "other_attributes \<Rightarrow> UserProfile \<Rightarrow> string \<Rightarrow> typed_value \<Rightarrow> error + UserProfile" where
  "object_setattr others p attr v =
     (if attr = ''age'' then Inr (p\<lparr>age := fst v\<rparr>)
      else if attr = ''state'' then Inr (p\<lparr>state := snd v\<rparr>)
      else if attr = ''education_level'' then Inr (p\<lparr>education_level := snd v\<rparr>)
      else if attr = ''income_range'' then Inr (p\<lparr>income_range := snd v\<rparr>)
      else if attr = ''category'' then Inr (p\<lparr>category := snd v\<rparr>)
      else if attr = ''occupation'' then Inr (p\<lparr>occupation := snd v\<rparr>)
      else if attr = ''gender'' then Inr (p\<lparr>gender := snd v\<rparr>)
      else
        (case others attr of
           NoAttribute e \<Rightarrow> Inl e
         | Accepted \<Rightarrow> Inr p
         | Refused e \<Rightarrow> Inl e))"

text \<open>
  A filter dictionary without its entries for the key \<open>category\<close>, and a filter
  dictionary reduced to its entries for the keys \<open>state\<close>, \<open>min_age\<close> and \<open>max_age\<close>.
\<close>

definition without_category :: "filters \<Rightarrow> filters" where
  "without_category fs = filter (\<lambda>kv. fst kv \<noteq> ''category'') fs"

definition checked_keys_only :: "filters \<Rightarrow> filters" where
  "checked_keys_only fs =
     filter (\<lambda>kv. fst kv = ''state'' \<or> fst kv = ''min_age'' \<or> fst kv = ''max_age'') fs"














text \<open>
  Instances for the concrete cases below: an encoder that maps a text to its length,
  a conversion of strings of decimal digits, a knowledge base built from three schemes
  and one built from four.
\<close>

definition length_encoder :: encoder where
  "length_encoder t = [real (length t)]"

definition decimal_to_int :: "string \<Rightarrow> error + int" where
  "decimal_to_int s =
     (if s \<noteq> [] \<and> list_all (\<lambda>c. 48 \<le> (of_char c :: nat) \<and> (of_char c :: nat) \<le> 57) s
      then Inr (foldl (\<lambda>a c. 10 * a + (int (of_char c) - 48)) 0 s)
      else Inl (ValueError s))"

definition empty_base :: KnowledgeBase where
  "empty_base = \<lparr> schemes = [], index = [] \<rparr>"

definition three_schemes :: "Scheme list" where
  "three_schemes =
     [sample_scheme ''ab'' (unrestricted\<lparr>states := Some [''Goa'']\<rparr>),
      sample_scheme ''abcd'' (unrestricted\<lparr>min_age := Some 18\<rparr>),
      sample_scheme ''a'' unrestricted]"

definition sample_base :: KnowledgeBase where
  "sample_base = snd (index_schemes length_encoder three_schemes empty_base)"



section \<open>Properties of the eligibility engine\<close>

lemmas check_defs = check_age_def check_state_def check_education_def check_income_def
  check_category_def check_gender_def check_occupation_def

lemmas eval_defs = check_single_scheme_def check_all_def check_defs Let_def
  generate_eligibility_explanation_def unrestricted_def new_profile_def sample_scheme_def
  determine_eligibility_def sort_reverse_def INCOME_RANGES_def

subsection \<open>Ranking\<close>

lemma eligible_results_eq:
  "eligible_results p ss = filter is_eligible (map (check_single_scheme p) ss)"
  by (induction ss) (simp_all add: Let_def)

lemma sort_reverse_set: "set (sort_reverse key xs) = set xs"
  by (simp add: sort_reverse_def)

lemma sort_reverse_mset: "mset (sort_reverse key xs) = mset xs"
  by (simp add: sort_reverse_def)

lemma sort_reverse_sorted:
  "sorted_wrt (\<lambda>a b. key a \<ge> key b) (sort_reverse key xs)"
proof -
  have "sorted (map key (sort_key key (rev xs)))"
    by (rule sorted_sort_key)
  then have "sorted_wrt (\<lambda>a b. key a \<le> key b) (sort_key key (rev xs))"
    by (simp add: sorted_map)
  then show ?thesis
    by (simp add: sort_reverse_def sorted_wrt_rev)
qed

lemma sort_reverse_stable:
  "filter (\<lambda>y. key y = k) (sort_reverse key xs) = filter (\<lambda>y. key y = k) xs"
proof -
  have "filter (\<lambda>y. key y = k) (sort_reverse key xs)
          = rev (filter (\<lambda>y. key y = k) (sort_key key (rev xs)))"
    by (simp add: sort_reverse_def rev_filter)
  also have "\<dots> = rev (filter (\<lambda>y. key y = k) (rev xs))"
    by (simp only: sort_key_stable)
  also have "\<dots> = filter (\<lambda>y. key y = k) xs"
    by (simp add: rev_filter)
  finally show ?thesis .
qed

text \<open>
  Claim C1. For every profile and list of schemes, \<open>determine_eligibility\<close> returns only
  eligible results, in non-increasing order of the number of matching criteria, and
  stably: for every count \<open>k\<close> the results with \<open>k\<close> matching criteria stand in the order
  in which their schemes stand in the input. The results are exactly the eligible
  evaluations of the input, each as often as it occurs there.
\<close>

theorem determine_eligibility_ranked:
  "list_all is_eligible (determine_eligibility p ss)
   \<and> sorted_wrt (\<lambda>a b. length (matching_criteria a) \<ge> length (matching_criteria b))
        (determine_eligibility p ss)
   \<and> (\<forall>k. filter (\<lambda>r. length (matching_criteria r) = k) (determine_eligibility p ss)
          = filter (\<lambda>r. length (matching_criteria r) = k)
              (filter is_eligible (map (check_single_scheme p) ss)))
   \<and> mset (determine_eligibility p ss)
        = mset (filter is_eligible (map (check_single_scheme p) ss))"
proof -
  let ?key = "\<lambda>r. length (matching_criteria r)"
  have a: "list_all is_eligible (determine_eligibility p ss)"
    by (simp add: determine_eligibility_def list_all_iff sort_reverse_set eligible_results_eq)
  have b: "sorted_wrt (\<lambda>a b. ?key a \<ge> ?key b) (determine_eligibility p ss)"
    unfolding determine_eligibility_def by (rule sort_reverse_sorted)
  have c: "filter (\<lambda>r. ?key r = k) (determine_eligibility p ss)
          = filter (\<lambda>r. ?key r = k) (filter is_eligible (map (check_single_scheme p) ss))" for k
    unfolding determine_eligibility_def
    by (simp only: sort_reverse_stable eligible_results_eq)
  have d: "mset (determine_eligibility p ss)
        = mset (filter is_eligible (map (check_single_scheme p) ss))"
    by (simp only: determine_eligibility_def sort_reverse_mset eligible_results_eq)
  from a b c d show ?thesis by blast
qed

text \<open>
  Four schemes against a profile of age 25 in Karnataka: the scheme for seniors is
  dropped, the one with two satisfied constraints comes first, and the two with one
  satisfied constraint keep their input order.
\<close>

theorem determine_eligibility_ranked_witness:
  "map (scheme_id \<circ> scheme)
     (determine_eligibility (new_profile\<lparr>age := Some 25, state := Some ''Karnataka''\<rparr>)
        [sample_scheme ''adult'' (unrestricted\<lparr>min_age := Some 18\<rparr>),
         sample_scheme ''senior'' (unrestricted\<lparr>min_age := Some 60\<rparr>),
         sample_scheme ''local'' (unrestricted\<lparr>min_age := Some 18, states := Some [''Karnataka'']\<rparr>),
         sample_scheme ''young'' (unrestricted\<lparr>max_age := Some 35\<rparr>)])
   = [''local'', ''adult'', ''young'']
   \<and> list_all is_eligible
     (determine_eligibility (new_profile\<lparr>age := Some 25, state := Some ''Karnataka''\<rparr>)
        [sample_scheme ''adult'' (unrestricted\<lparr>min_age := Some 18\<rparr>),
         sample_scheme ''senior'' (unrestricted\<lparr>min_age := Some 60\<rparr>),
         sample_scheme ''local'' (unrestricted\<lparr>min_age := Some 18, states := Some [''Karnataka'']\<rparr>),
         sample_scheme ''young'' (unrestricted\<lparr>max_age := Some 35\<rparr>)])"
  using determine_eligibility_ranked [of "new_profile\<lparr>age := Some 25, state := Some ''Karnataka''\<rparr>"
        "[sample_scheme ''adult'' (unrestricted\<lparr>min_age := Some 18\<rparr>),
         sample_scheme ''senior'' (unrestricted\<lparr>min_age := Some 60\<rparr>),
         sample_scheme ''local'' (unrestricted\<lparr>min_age := Some 18, states := Some [''Karnataka'']\<rparr>),
         sample_scheme ''young'' (unrestricted\<lparr>max_age := Some 35\<rparr>)]"]
  by (simp add: eval_defs)

subsection \<open>Confidence\<close>

lemma no_constraints_check_all:
  "no_constraints e \<Longrightarrow> check_all p e = ([], [], True)"
  by (simp add: no_constraints_def check_all_def check_defs)

text \<open>
  Claim C2. The confidence of \<open>check_single_scheme\<close> is the number of matching criteria
  divided by the number of matching and missing criteria together, and 0 when both
  lists are empty. For a rule set without constraints the result is eligible with
  confidence 0, both lists being empty.
\<close>

theorem confidence_is_satisfied_ratio:
  "confidence (check_single_scheme p s) =
     (if matching_criteria (check_single_scheme p s) = []
         \<and> missing_criteria (check_single_scheme p s) = [] then 0
      else real (length (matching_criteria (check_single_scheme p s)))
           / real (length (matching_criteria (check_single_scheme p s))
                   + length (missing_criteria (check_single_scheme p s))))
   \<and> (no_constraints (eligibility s) \<longrightarrow>
        is_eligible (check_single_scheme p s) \<and> confidence (check_single_scheme p s) = 0
        \<and> matching_criteria (check_single_scheme p s) = []
        \<and> missing_criteria (check_single_scheme p s) = [])"
proof (intro conjI impI)
  show "confidence (check_single_scheme p s) =
     (if matching_criteria (check_single_scheme p s) = []
         \<and> missing_criteria (check_single_scheme p s) = [] then 0
      else real (length (matching_criteria (check_single_scheme p s)))
           / real (length (matching_criteria (check_single_scheme p s))
                   + length (missing_criteria (check_single_scheme p s))))"
    by (cases "check_all p (eligibility s)") (auto simp: check_single_scheme_def Let_def)
next
  assume "no_constraints (eligibility s)"
  then have "check_all p (eligibility s) = ([], [], True)"
    by (rule no_constraints_check_all)
  then show "is_eligible (check_single_scheme p s)"
    and "confidence (check_single_scheme p s) = 0"
    and "matching_criteria (check_single_scheme p s) = []"
    and "missing_criteria (check_single_scheme p s) = []"
    by (simp_all add: check_single_scheme_def)
qed

text \<open>
  An unrestricted scheme gives confidence 0 with an eligible verdict; a scheme with one
  satisfied and one failed constraint gives one half.
\<close>

theorem confidence_is_satisfied_ratio_witness:
  "no_constraints (eligibility (sample_scheme ''open'' unrestricted))
   \<and> is_eligible (check_single_scheme (new_profile\<lparr>age := Some 40\<rparr>) (sample_scheme ''open'' unrestricted))
   \<and> confidence (check_single_scheme (new_profile\<lparr>age := Some 40\<rparr>) (sample_scheme ''open'' unrestricted)) = 0
   \<and> confidence (check_single_scheme (new_profile\<lparr>age := Some 40, gender := Some ''male''\<rparr>)
        (sample_scheme ''women'' (unrestricted\<lparr>min_age := Some 18, required_gender := Some ''female''\<rparr>)))
       = 1 / 2"
  using confidence_is_satisfied_ratio [of "new_profile\<lparr>age := Some 40\<rparr>" "sample_scheme ''open'' unrestricted"]
    confidence_is_satisfied_ratio [of "new_profile\<lparr>age := Some 40, gender := Some ''male''\<rparr>"
       "sample_scheme ''women'' (unrestricted\<lparr>min_age := Some 18, required_gender := Some ''female''\<rparr>)"]
  by (simp add: eval_defs no_constraints_def)

subsection \<open>Unset attributes\<close>

lemma failed_with_kept:
  "failed_with x t \<Longrightarrow> failed_with x (check_age p e t)"
  "failed_with x t \<Longrightarrow> failed_with x (check_state p e t)"
  "failed_with x t \<Longrightarrow> failed_with x (check_education p e t)"
  "failed_with x t \<Longrightarrow> failed_with x (check_income p e t)"
  "failed_with x t \<Longrightarrow> failed_with x (check_category p e t)"
  "failed_with x t \<Longrightarrow> failed_with x (check_gender p e t)"
  "failed_with x t \<Longrightarrow> failed_with x (check_occupation p e t)"
  by (cases t; auto simp: failed_with_def check_defs Let_def split: option.splits)+

lemma unset_fails:
  "min_age e \<noteq> None \<or> max_age e \<noteq> None \<Longrightarrow> age p = None
     \<Longrightarrow> failed_with AgeInformationRequired (check_age p e t)"
  "states e \<noteq> None \<Longrightarrow> state p = None
     \<Longrightarrow> failed_with StateInformationRequired (check_state p e t)"
  "education_levels e \<noteq> None \<Longrightarrow> education_level p = None
     \<Longrightarrow> failed_with EducationInformationRequired (check_education p e t)"
  "income_max e \<noteq> None \<Longrightarrow> income_range p = None
     \<Longrightarrow> failed_with IncomeInformationRequired (check_income p e t)"
  "categories e \<noteq> None \<Longrightarrow> category p = None
     \<Longrightarrow> failed_with CategoryInformationRequired (check_category p e t)"
  "required_gender e \<noteq> None \<Longrightarrow> gender p = None
     \<Longrightarrow> failed_with GenderInformationRequired (check_gender p e t)"
  "occupations e \<noteq> None \<Longrightarrow> occupation p = None
     \<Longrightarrow> failed_with OccupationInformationRequired (check_occupation p e t)"
  by (cases t; auto simp: failed_with_def check_defs Let_def split: option.splits)+

lemma failed_with_result:
  "failed_with x (check_all p (eligibility s)) \<Longrightarrow>
     x \<in> set (missing_criteria (check_single_scheme p s)) \<and> \<not> is_eligible (check_single_scheme p s)"
  by (cases "check_all p (eligibility s)") (simp add: failed_with_def check_single_scheme_def Let_def)

text \<open>
  Claim C3. For each of the seven attribute families (age, state, education, income,
  category, gender, occupation): when the scheme's rule set constrains the family and
  the profile's attribute is unset, the result's missing criteria contain the family's
  "information required" item and the verdict is ineligible.
\<close>

theorem unset_constrained_attribute_fails:
  "((min_age (eligibility s) \<noteq> None \<or> max_age (eligibility s) \<noteq> None) \<and> age p = None \<longrightarrow>
      AgeInformationRequired \<in> set (missing_criteria (check_single_scheme p s))
      \<and> \<not> is_eligible (check_single_scheme p s))
   \<and> (states (eligibility s) \<noteq> None \<and> state p = None \<longrightarrow>
      StateInformationRequired \<in> set (missing_criteria (check_single_scheme p s))
      \<and> \<not> is_eligible (check_single_scheme p s))
   \<and> (education_levels (eligibility s) \<noteq> None \<and> education_level p = None \<longrightarrow>
      EducationInformationRequired \<in> set (missing_criteria (check_single_scheme p s))
      \<and> \<not> is_eligible (check_single_scheme p s))
   \<and> (income_max (eligibility s) \<noteq> None \<and> income_range p = None \<longrightarrow>
      IncomeInformationRequired \<in> set (missing_criteria (check_single_scheme p s))
      \<and> \<not> is_eligible (check_single_scheme p s))
   \<and> (categories (eligibility s) \<noteq> None \<and> category p = None \<longrightarrow>
      CategoryInformationRequired \<in> set (missing_criteria (check_single_scheme p s))
      \<and> \<not> is_eligible (check_single_scheme p s))
   \<and> (required_gender (eligibility s) \<noteq> None \<and> gender p = None \<longrightarrow>
      GenderInformationRequired \<in> set (missing_criteria (check_single_scheme p s))
      \<and> \<not> is_eligible (check_single_scheme p s))
   \<and> (occupations (eligibility s) \<noteq> None \<and> occupation p = None \<longrightarrow>
      OccupationInformationRequired \<in> set (missing_criteria (check_single_scheme p s))
      \<and> \<not> is_eligible (check_single_scheme p s))"
proof (intro conjI impI)
  assume "(min_age (eligibility s) \<noteq> None \<or> max_age (eligibility s) \<noteq> None) \<and> age p = None"
  then have "failed_with AgeInformationRequired (check_all p (eligibility s))"
    unfolding check_all_def by (intro failed_with_kept unset_fails) simp_all
  then show "AgeInformationRequired \<in> set (missing_criteria (check_single_scheme p s))"
    and "\<not> is_eligible (check_single_scheme p s)"
    by (simp_all add: failed_with_result)
next
  assume "states (eligibility s) \<noteq> None \<and> state p = None"
  then have "failed_with StateInformationRequired (check_all p (eligibility s))"
    unfolding check_all_def by (intro failed_with_kept unset_fails) simp_all
  then show "StateInformationRequired \<in> set (missing_criteria (check_single_scheme p s))"
    and "\<not> is_eligible (check_single_scheme p s)"
    by (simp_all add: failed_with_result)
next
  assume "education_levels (eligibility s) \<noteq> None \<and> education_level p = None"
  then have "failed_with EducationInformationRequired (check_all p (eligibility s))"
    unfolding check_all_def by (intro failed_with_kept unset_fails) simp_all
  then show "EducationInformationRequired \<in> set (missing_criteria (check_single_scheme p s))"
    and "\<not> is_eligible (check_single_scheme p s)"
    by (simp_all add: failed_with_result)
next
  assume "income_max (eligibility s) \<noteq> None \<and> income_range p = None"
  then have "failed_with IncomeInformationRequired (check_all p (eligibility s))"
    unfolding check_all_def by (intro failed_with_kept unset_fails) simp_all
  then show "IncomeInformationRequired \<in> set (missing_criteria (check_single_scheme p s))"
    and "\<not> is_eligible (check_single_scheme p s)"
    by (simp_all add: failed_with_result)
next
  assume "categories (eligibility s) \<noteq> None \<and> category p = None"
  then have "failed_with CategoryInformationRequired (check_all p (eligibility s))"
    unfolding check_all_def by (intro failed_with_kept unset_fails) simp_all
  then show "CategoryInformationRequired \<in> set (missing_criteria (check_single_scheme p s))"
    and "\<not> is_eligible (check_single_scheme p s)"
    by (simp_all add: failed_with_result)
next
  assume "required_gender (eligibility s) \<noteq> None \<and> gender p = None"
  then have "failed_with GenderInformationRequired (check_all p (eligibility s))"
    unfolding check_all_def by (intro failed_with_kept unset_fails) simp_all
  then show "GenderInformationRequired \<in> set (missing_criteria (check_single_scheme p s))"
    and "\<not> is_eligible (check_single_scheme p s)"
    by (simp_all add: failed_with_result)
next
  assume "occupations (eligibility s) \<noteq> None \<and> occupation p = None"
  then have "failed_with OccupationInformationRequired (check_all p (eligibility s))"
    unfolding check_all_def by (intro failed_with_kept unset_fails) simp_all
  then show "OccupationInformationRequired \<in> set (missing_criteria (check_single_scheme p s))"
    and "\<not> is_eligible (check_single_scheme p s)"
    by (simp_all add: failed_with_result)
qed

text \<open>A scheme restricted to one state, and a profile whose state is unset.\<close>

theorem unset_constrained_attribute_fails_witness:
  "states (eligibility (sample_scheme ''local'' (unrestricted\<lparr>states := Some [''Kerala'']\<rparr>))) \<noteq> None
   \<and> state (new_profile\<lparr>age := Some 30\<rparr>) = None
   \<and> StateInformationRequired \<in> set (missing_criteria (check_single_scheme (new_profile\<lparr>age := Some 30\<rparr>)
         (sample_scheme ''local'' (unrestricted\<lparr>states := Some [''Kerala'']\<rparr>))))
   \<and> \<not> is_eligible (check_single_scheme (new_profile\<lparr>age := Some 30\<rparr>)
         (sample_scheme ''local'' (unrestricted\<lparr>states := Some [''Kerala'']\<rparr>)))"
  using unset_constrained_attribute_fails [of "sample_scheme ''local'' (unrestricted\<lparr>states := Some [''Kerala'']\<rparr>)"
      "new_profile\<lparr>age := Some 30\<rparr>"]
  by (simp add: unrestricted_def new_profile_def sample_scheme_def)

subsection \<open>Income\<close>

lemma income_items_elsewhere:
  "IncomeWithinLimit l \<in> set (fst (check_age p e t)) \<longleftrightarrow> IncomeWithinLimit l \<in> set (fst t)"
  "IncomeWithinLimit l \<in> set (fst (check_state p e t)) \<longleftrightarrow> IncomeWithinLimit l \<in> set (fst t)"
  "IncomeWithinLimit l \<in> set (fst (check_education p e t)) \<longleftrightarrow> IncomeWithinLimit l \<in> set (fst t)"
  "IncomeWithinLimit l \<in> set (fst (check_category p e t)) \<longleftrightarrow> IncomeWithinLimit l \<in> set (fst t)"
  "IncomeWithinLimit l \<in> set (fst (check_gender p e t)) \<longleftrightarrow> IncomeWithinLimit l \<in> set (fst t)"
  "IncomeWithinLimit l \<in> set (fst (check_occupation p e t)) \<longleftrightarrow> IncomeWithinLimit l \<in> set (fst t)"
  by (cases t; auto simp: check_defs Let_def split: option.splits)+

lemma income_refusals_elsewhere:
  "MaximumIncomeRequirement l \<in> set (fst (snd (check_age p e t)))
     \<longleftrightarrow> MaximumIncomeRequirement l \<in> set (fst (snd t))"
  "MaximumIncomeRequirement l \<in> set (fst (snd (check_state p e t)))
     \<longleftrightarrow> MaximumIncomeRequirement l \<in> set (fst (snd t))"
  "MaximumIncomeRequirement l \<in> set (fst (snd (check_education p e t)))
     \<longleftrightarrow> MaximumIncomeRequirement l \<in> set (fst (snd t))"
  "MaximumIncomeRequirement l \<in> set (fst (snd (check_category p e t)))
     \<longleftrightarrow> MaximumIncomeRequirement l \<in> set (fst (snd t))"
  "MaximumIncomeRequirement l \<in> set (fst (snd (check_gender p e t)))
     \<longleftrightarrow> MaximumIncomeRequirement l \<in> set (fst (snd t))"
  "MaximumIncomeRequirement l \<in> set (fst (snd (check_occupation p e t)))
     \<longleftrightarrow> MaximumIncomeRequirement l \<in> set (fst (snd t))"
  by (cases t; auto simp: check_defs Let_def split: option.splits)+

lemma exceeds_iff: "exceeds c m \<longleftrightarrow> \<not> ceiling_at_most c m"
  by (cases c) auto

lemma check_income_set:
  assumes "income_max e = Some limit" "income_range p = Some bracket"
    "INCOME_RANGES bracket = Some c"
  shows "IncomeWithinLimit limit \<in> set (fst (check_income p e t))
           \<longleftrightarrow> IncomeWithinLimit limit \<in> set (fst t) \<or> ceiling_at_most c limit"
    and "MaximumIncomeRequirement limit \<in> set (fst (snd (check_income p e t)))
           \<longleftrightarrow> MaximumIncomeRequirement limit \<in> set (fst (snd t)) \<or> \<not> ceiling_at_most c limit"
    and "\<not> ceiling_at_most c limit \<Longrightarrow> \<not> snd (snd (check_income p e t))"
  using assms by (cases t; auto simp: check_income_def Let_def exceeds_iff)+

lemma ok_never_regained:
  "\<not> snd (snd t) \<Longrightarrow> \<not> snd (snd (check_age p e t))"
  "\<not> snd (snd t) \<Longrightarrow> \<not> snd (snd (check_state p e t))"
  "\<not> snd (snd t) \<Longrightarrow> \<not> snd (snd (check_education p e t))"
  "\<not> snd (snd t) \<Longrightarrow> \<not> snd (snd (check_income p e t))"
  "\<not> snd (snd t) \<Longrightarrow> \<not> snd (snd (check_category p e t))"
  "\<not> snd (snd t) \<Longrightarrow> \<not> snd (snd (check_gender p e t))"
  "\<not> snd (snd t) \<Longrightarrow> \<not> snd (snd (check_occupation p e t))"
  by (cases t; auto simp: check_defs Let_def split: option.splits)+

lemma result_fields:
  "matching_criteria (check_single_scheme p s) = fst (check_all p (eligibility s))"
  "missing_criteria (check_single_scheme p s) = fst (snd (check_all p (eligibility s)))"
  "is_eligible (check_single_scheme p s) = snd (snd (check_all p (eligibility s)))"
  by (cases "check_all p (eligibility s)"; simp add: check_single_scheme_def Let_def)+

lemma top_bracket: "INCOME_RANGES ''above_8lakh'' = Some Unbounded"
  by (simp add: INCOME_RANGES_def)

text \<open>
  Claim C4. For a profile whose income bracket is one of \<open>INCOME_RANGES\<close>, with ceiling
  \<open>c\<close>, and a scheme with the constraint \<open>income_max = limit\<close>: the income constraint is
  recorded as matching exactly when \<open>c\<close> is at most \<open>limit\<close>, and as missing (with an
  ineligible verdict) otherwise. The bracket \<open>above_8lakh\<close> has the unbounded ceiling and
  is never recorded as matching.
\<close>

theorem income_constraint_satisfied_iff:
  assumes "income_max (eligibility s) = Some limit"
    and "income_range p = Some bracket"
    and "INCOME_RANGES bracket = Some c"
  shows "(IncomeWithinLimit limit \<in> set (matching_criteria (check_single_scheme p s))
            \<longleftrightarrow> ceiling_at_most c limit)
       \<and> (MaximumIncomeRequirement limit \<in> set (missing_criteria (check_single_scheme p s))
            \<longleftrightarrow> \<not> ceiling_at_most c limit)
       \<and> (\<not> ceiling_at_most c limit \<longrightarrow> \<not> is_eligible (check_single_scheme p s))
       \<and> (bracket = ''above_8lakh'' \<longrightarrow> c = Unbounded
            \<and> IncomeWithinLimit limit \<notin> set (matching_criteria (check_single_scheme p s)))"
proof -
  let ?e = "eligibility s"
  let ?t = "check_education p ?e (check_state p ?e (check_age p ?e ([], [], True)))"
  have m0: "IncomeWithinLimit limit \<notin> set (fst ?t)"
    by (simp add: income_items_elsewhere)
  have u0: "MaximumIncomeRequirement limit \<notin> set (fst (snd ?t))"
    by (simp add: income_refusals_elsewhere)
  have a: "IncomeWithinLimit limit \<in> set (matching_criteria (check_single_scheme p s))
            \<longleftrightarrow> ceiling_at_most c limit"
    using m0 by (simp add: result_fields check_all_def income_items_elsewhere
        check_income_set(1)[OF assms])
  have b: "MaximumIncomeRequirement limit \<in> set (missing_criteria (check_single_scheme p s))
            \<longleftrightarrow> \<not> ceiling_at_most c limit"
    using u0 by (simp add: result_fields check_all_def income_refusals_elsewhere
        check_income_set(2)[OF assms])
  have c: "\<not> is_eligible (check_single_scheme p s)" if "\<not> ceiling_at_most c limit"
    unfolding result_fields check_all_def
    by (intro ok_never_regained check_income_set(3)[OF assms] that)
  have d: "c = Unbounded" if "bracket = ''above_8lakh''"
    using that assms(3) by (simp add: top_bracket)
  from a b c d show ?thesis by auto
qed

text \<open>The bracket \<open>1-3lakh\<close> against a limit of 300000 rupees.\<close>

theorem income_constraint_satisfied_iff_witness:
  "income_max (eligibility (sample_scheme ''aid'' (unrestricted\<lparr>income_max := Some 300000\<rparr>))) = Some 300000
   \<and> income_range (new_profile\<lparr>income_range := Some ''1-3lakh''\<rparr>) = Some ''1-3lakh''
   \<and> INCOME_RANGES ''1-3lakh'' = Some (Rupees 300000)
   \<and> IncomeWithinLimit 300000 \<in> set (matching_criteria
        (check_single_scheme (new_profile\<lparr>income_range := Some ''1-3lakh''\<rparr>)
           (sample_scheme ''aid'' (unrestricted\<lparr>income_max := Some 300000\<rparr>))))"
proof -
  have h1: "income_max (eligibility (sample_scheme ''aid'' (unrestricted\<lparr>income_max := Some 300000\<rparr>))) = Some 300000"
    by (simp add: sample_scheme_def)
  have h2: "income_range (new_profile\<lparr>income_range := Some ''1-3lakh''\<rparr>) = Some ''1-3lakh''"
    by simp
  have h3: "INCOME_RANGES ''1-3lakh'' = Some (Rupees 300000)"
    by (simp add: INCOME_RANGES_def)
  from income_constraint_satisfied_iff [OF h1 h2 h3] h1 h2 h3 show ?thesis
    by simp
qed

section \<open>Properties of the conversation engine\<close>

subsection \<open>The guided questions\<close>

lemma question_text_hi:
  "question_text ''age'' ''hi'' = Inr question_age_hi"
  "question_text ''state'' ''hi'' = Inr question_state_hi"
  "question_text ''education_level'' ''hi'' = Inr question_education_level_hi"
  "question_text ''income_range'' ''hi'' = Inr question_income_range_hi"
  "question_text ''category'' ''hi'' = Inr question_category_hi"
  "question_text ''gender'' ''hi'' = Inr question_gender_hi"
  "question_text ''occupation'' ''hi'' = Inr question_occupation_hi"
  by (simp_all add: question_text_def QUESTIONS_def subscript_def localized_def)

lemma question_text_other:
  assumes "lang \<noteq> ''hi''"
  shows "question_text ''age'' lang = Inr question_age_en"
    and "question_text ''state'' lang = Inr question_state_en"
    and "question_text ''education_level'' lang = Inr question_education_level_en"
    and "question_text ''income_range'' lang = Inr question_income_range_en"
    and "question_text ''category'' lang = Inr question_category_en"
    and "question_text ''gender'' lang = Inr question_gender_en"
    and "question_text ''occupation'' lang = Inr question_occupation_en"
  using assms by (auto simp: question_text_def QUESTIONS_def subscript_def localized_def)

lemma get_next_question_collecting:
  assumes "current_stage s = ''info_collection''"
    and "first_to_ask (question_order (user_profile s)) (asked_questions s) = Some f"
    and "question_text f (language s) = Inr q"
  shows "get_next_question s = (Inr (Some q), s\<lparr>asked_questions := asked_questions s @ [f]\<rparr>)"
  using assms by (simp add: get_next_question_def)

lemma get_next_question_greeting:
  assumes "current_stage s = ''greeting''"
    and "first_to_ask (question_order (user_profile s)) (asked_questions s) = Some f"
    and "question_text f (language s) = Inr q"
  shows "get_next_question s =
     (Inr (Some q), s\<lparr>current_stage := ''info_collection'', asked_questions := asked_questions s @ [f]\<rparr>)"
  using assms by (simp add: get_next_question_def)

lemma get_next_question_exhausted:
  assumes "current_stage s = ''info_collection''"
    and "first_to_ask (question_order (user_profile s)) (asked_questions s) = None"
  shows "get_next_question s = (Inr None, s)"
  using assms by (simp add: get_next_question_def)

lemma eight_calls:
  assumes "current_stage s = ''greeting''" and "user_profile s = new_profile"
    and "asked_questions s = []"
    and q: "question_text ''age'' (language s) = Inr q1"
      "question_text ''state'' (language s) = Inr q2"
      "question_text ''education_level'' (language s) = Inr q3"
      "question_text ''income_range'' (language s) = Inr q4"
      "question_text ''category'' (language s) = Inr q5"
      "question_text ''gender'' (language s) = Inr q6"
      "question_text ''occupation'' (language s) = Inr q7"
  shows "next_questions 8 s =
     (map (\<lambda>q. Inr (Some q)) [q1, q2, q3, q4, q5, q6, q7] @ [Inr None],
      s\<lparr>current_stage := ''info_collection'', asked_questions := priority_order\<rparr>)"
proof -
  define s1 where "s1 = s\<lparr>current_stage := ''info_collection'', asked_questions := [''age'']\<rparr>"
  define s2 where "s2 = s1\<lparr>asked_questions := [''age'', ''state'']\<rparr>"
  define s3 where "s3 = s2\<lparr>asked_questions := [''age'', ''state'', ''education_level'']\<rparr>"
  define s4 where "s4 = s3\<lparr>asked_questions :=
    [''age'', ''state'', ''education_level'', ''income_range'']\<rparr>"
  define s5 where "s5 = s4\<lparr>asked_questions :=
    [''age'', ''state'', ''education_level'', ''income_range'', ''category'']\<rparr>"
  define s6 where "s6 = s5\<lparr>asked_questions :=
    [''age'', ''state'', ''education_level'', ''income_range'', ''category'', ''gender'']\<rparr>"
  define s7 where "s7 = s6\<lparr>asked_questions := priority_order\<rparr>"
  have c1: "get_next_question s = (Inr (Some q1), s1)"
    using assms(1-3) q(1)
    by (subst get_next_question_greeting[where f = "''age''" and q = q1])
      (simp_all add: s1_def question_order_def new_profile_def)
  have c2: "get_next_question s1 = (Inr (Some q2), s2)"
    using assms(2) q(2)
    by (subst get_next_question_collecting[where f = "''state''" and q = q2])
      (simp_all add: s1_def s2_def question_order_def new_profile_def)
  have c3: "get_next_question s2 = (Inr (Some q3), s3)"
    using assms(2) q(3)
    by (subst get_next_question_collecting[where f = "''education_level''" and q = q3])
      (simp_all add: s1_def s2_def s3_def question_order_def new_profile_def)
  have c4: "get_next_question s3 = (Inr (Some q4), s4)"
    using assms(2) q(4)
    by (subst get_next_question_collecting[where f = "''income_range''" and q = q4])
      (simp_all add: s1_def s2_def s3_def s4_def question_order_def new_profile_def)
  have c5: "get_next_question s4 = (Inr (Some q5), s5)"
    using assms(2) q(5)
    by (subst get_next_question_collecting[where f = "''category''" and q = q5])
      (simp_all add: s1_def s2_def s3_def s4_def s5_def question_order_def new_profile_def)
  have c6: "get_next_question s5 = (Inr (Some q6), s6)"
    using assms(2) q(6)
    by (subst get_next_question_collecting[where f = "''gender''" and q = q6])
      (simp_all add: s1_def s2_def s3_def s4_def s5_def s6_def question_order_def new_profile_def)
  have c7: "get_next_question s6 = (Inr (Some q7), s7)"
    using assms(2) q(7)
    by (subst get_next_question_collecting[where f = "''occupation''" and q = q7])
      (simp_all add: s1_def s2_def s3_def s4_def s5_def s6_def s7_def question_order_def
        new_profile_def priority_order_def)
  have c8: "get_next_question s7 = (Inr None, s7)"
    using assms(2)
    by (subst get_next_question_exhausted)
      (simp_all add: s1_def s2_def s3_def s4_def s5_def s6_def s7_def question_order_def
        new_profile_def priority_order_def)
  have s7_eq: "s7 = s\<lparr>current_stage := ''info_collection'', asked_questions := priority_order\<rparr>"
    by (simp add: s1_def s2_def s3_def s4_def s5_def s6_def s7_def)
  have "next_questions 8 s = ([Inr (Some q1), Inr (Some q2), Inr (Some q3), Inr (Some q4),
      Inr (Some q5), Inr (Some q6), Inr (Some q7), Inr None], s7)"
    by (simp add: eval_nat_numeral c1 c2 c3 c4 c5 c6 c7 c8)
  then show ?thesis by (simp add: s7_eq)
qed

text \<open>
  Claim C5. On a session in stage \<open>greeting\<close> with an empty profile and nothing asked,
  eight successive calls of \<open>get_next_question\<close> return the prompts for age, state,
  education level, income range, category, gender and occupation, in this order and in
  the session's language (Hindi for \<open>hi\<close>, English otherwise), and then \<open>None\<close>. After
  them the stage is \<open>info_collection\<close> and \<open>asked_questions\<close> holds the seven field names,
  each once.
\<close>

theorem seven_questions_then_none:
  assumes "current_stage s = ''greeting''" and "user_profile s = new_profile"
    and "asked_questions s = []"
  shows "next_questions 8 s =
           (map (\<lambda>q. Inr (Some q)) (if language s = ''hi'' then prompts_hi else prompts_en)
              @ [Inr None],
            s\<lparr>current_stage := ''info_collection'', asked_questions := priority_order\<rparr>)
       \<and> distinct priority_order \<and> length priority_order = 7"
proof (cases "language s = ''hi''")
  case True
  then show ?thesis
    using eight_calls[OF assms, of question_age_hi question_state_hi question_education_level_hi
        question_income_range_hi question_category_hi question_gender_hi question_occupation_hi]
    by (simp add: question_text_hi prompts_hi_def priority_order_def)
next
  case False
  then show ?thesis
    using eight_calls[OF assms question_text_other[OF False]]
    by (simp add: prompts_en_def priority_order_def)
qed

text \<open>The eight calls on an English session.\<close>

theorem seven_questions_then_none_witness:
  "current_stage (sample_session ''a'' 0) = ''greeting''
   \<and> user_profile (sample_session ''a'' 0) = new_profile
   \<and> asked_questions (sample_session ''a'' 0) = []
   \<and> next_questions 8 (sample_session ''a'' 0) =
       ([Inr (Some question_age_en), Inr (Some question_state_en),
         Inr (Some question_education_level_en), Inr (Some question_income_range_en),
         Inr (Some question_category_en), Inr (Some question_gender_en),
         Inr (Some question_occupation_en), Inr None],
        (sample_session ''a'' 0)\<lparr>current_stage := ''info_collection'',
           asked_questions := [''age'', ''state'', ''education_level'', ''income_range'',
             ''category'', ''gender'', ''occupation'']\<rparr>)"
proof -
  have h1: "current_stage (sample_session ''a'' 0) = ''greeting''"
    and h2: "user_profile (sample_session ''a'' 0) = new_profile"
    and h3: "asked_questions (sample_session ''a'' 0) = []"
    and l: "language (sample_session ''a'' 0) \<noteq> ''hi''"
    by (simp_all add: sample_session_def)
  from seven_questions_then_none[OF h1 h2 h3] h1 h2 h3 l show ?thesis
    by (simp add: prompts_en_def priority_order_def)
qed

text \<open>
  The session that \<open>start_conversation\<close> returns and stores is such a session: the
  greeting only adds a message.
\<close>

lemma start_conversation_fresh:
  "\<exists>st. fst (start_conversation sid now lang ss) = Inr st
     \<and> current_stage st = ''greeting'' \<and> user_profile st = new_profile
     \<and> asked_questions st = [] \<and> language st = lang \<and> last_activity st = now
     \<and> map_of (snd (start_conversation sid now lang ss)) sid = Some st"
  by (auto simp: start_conversation_def localized_def subscript_def GREETINGS_def Let_def
      add_message_def new_profile_def AList.update_conv' split: option.splits)

subsection \<open>Expiry\<close>

lemma length_delete_present:
  assumes "distinct (map fst ss)" and "map_of ss k = Some v"
  shows "Suc (length (AList.delete k ss)) = length ss"
  using assms
proof (induction ss)
  case Nil
  then show ?case by simp
next
  case (Cons a ss)
  show ?case
  proof (cases "fst a = k")
    case True
    with Cons.prems(1) have "k \<notin> fst ` set ss" by auto
    then have "AList.delete k ss = ss" by simp
    with True show ?thesis by (cases a) simp
  next
    case False
    with Cons.prems have "map_of ss k = Some v" and "distinct (map fst ss)"
      by (cases a; simp)+
    with Cons.IH have "Suc (length (AList.delete k ss)) = length ss" by simp
    with False show ?thesis by (cases a) simp
  qed
qed

text \<open>
  Claim C6. For a stored session: when the time since its \<open>last_activity\<close> exceeds
  \<open>SESSION_TIMEOUT\<close> (30 minutes), \<open>get_session\<close> returns \<open>None\<close> and removes the
  session from the store, so that the number of active sessions drops by one, the
  other sessions stay as they are and a later read finds nothing; when the time is at
  most the timeout, \<open>get_session\<close> returns the session and leaves the store as it is.
\<close>

theorem expired_session_is_removed:
  assumes "distinct (map fst ss)" and "map_of ss sid = Some st"
  shows "(now - last_activity st > SESSION_TIMEOUT \<longrightarrow>
            fst (get_session now sid ss) = None
            \<and> snd (get_session now sid ss) = AList.delete sid ss
            \<and> map_of (snd (get_session now sid ss)) sid = None
            \<and> Suc (get_active_sessions_count (snd (get_session now sid ss)))
                = get_active_sessions_count ss
            \<and> (\<forall>other. other \<noteq> sid \<longrightarrow>
                  map_of (snd (get_session now sid ss)) other = map_of ss other)
            \<and> get_session now sid (snd (get_session now sid ss))
                = (None, snd (get_session now sid ss)))
       \<and> (now - last_activity st \<le> SESSION_TIMEOUT \<longrightarrow>
            get_session now sid ss = (Some st, ss))"
proof (intro conjI impI allI)
  assume late: "now - last_activity st > SESSION_TIMEOUT"
  have gs: "get_session now sid ss = (None, AList.delete sid ss)"
    using assms(2) late by (simp add: get_session_def end_conversation_def)
  show "fst (get_session now sid ss) = None"
    and "snd (get_session now sid ss) = AList.delete sid ss"
    by (simp_all add: gs)
  show gone: "map_of (snd (get_session now sid ss)) sid = None"
    by (simp add: gs AList.delete_conv')
  show "Suc (get_active_sessions_count (snd (get_session now sid ss)))
          = get_active_sessions_count ss"
    using length_delete_present[OF assms] by (simp add: gs get_active_sessions_count_def)
  show "get_session now sid (snd (get_session now sid ss)) = (None, snd (get_session now sid ss))"
    using gone by (simp add: get_session_def)
  fix other
  assume "other \<noteq> sid"
  then show "map_of (snd (get_session now sid ss)) other = map_of ss other"
    by (simp add: gs)
next
  assume "now - last_activity st \<le> SESSION_TIMEOUT"
  then show "get_session now sid ss = (Some st, ss)"
    using assms(2) by (simp add: get_session_def)
qed

text \<open>
  Two sessions, the first last active at time 0: read one microsecond after the
  timeout it is gone, read exactly at the timeout it is returned.
\<close>

theorem expired_session_is_removed_witness:
  "distinct (map fst [(''a'', sample_session ''a'' 0), (''b'', sample_session ''b'' 1000000)])
   \<and> map_of [(''a'', sample_session ''a'' 0), (''b'', sample_session ''b'' 1000000)] ''a''
       = Some (sample_session ''a'' 0)
   \<and> 1800000001 - last_activity (sample_session ''a'' 0) > SESSION_TIMEOUT
   \<and> get_session 1800000001 ''a''
        [(''a'', sample_session ''a'' 0), (''b'', sample_session ''b'' 1000000)]
       = (None, [(''b'', sample_session ''b'' 1000000)])
   \<and> get_active_sessions_count (snd (get_session 1800000001 ''a''
        [(''a'', sample_session ''a'' 0), (''b'', sample_session ''b'' 1000000)])) = 1
   \<and> 1800000000 - last_activity (sample_session ''a'' 0) \<le> SESSION_TIMEOUT
   \<and> get_session 1800000000 ''a''
        [(''a'', sample_session ''a'' 0), (''b'', sample_session ''b'' 1000000)]
       = (Some (sample_session ''a'' 0),
          [(''a'', sample_session ''a'' 0), (''b'', sample_session ''b'' 1000000)])"
proof -
  let ?ss = "[(''a'', sample_session ''a'' 0), (''b'', sample_session ''b'' 1000000)]"
  have d: "distinct (map fst ?ss)" by simp
  have m: "map_of ?ss ''a'' = Some (sample_session ''a'' 0)" by simp
  have la: "last_activity (sample_session ''a'' 0) = 0" by (simp add: sample_session_def)
  from expired_session_is_removed[OF d m, of 1800000001]
    expired_session_is_removed[OF d m, of 1800000000] d m
  show ?thesis
    by (simp add: la SESSION_TIMEOUT_def get_active_sessions_count_def prod_eq_iff)
qed

subsection \<open>Last activity\<close>

text \<open>
  \<open>get_next_question\<close> never reads the clock: whatever it changes, \<open>last_activity\<close>
  stays as it was.
\<close>

lemma get_next_question_keeps_last_activity:
  "last_activity (snd (get_next_question s)) = last_activity s"
  by (simp add: get_next_question_def Let_def split: option.splits sum.splits)

text \<open>
  Claim C7 as stated, that every operation that changes a session refreshes its time of
  last activity, \<open>get_next_question\<close> included, fails: on a new session last active at
  time 0 the first call changes the stage and marks \<open>age\<close> as asked, and the time of
  last activity is still 0.
\<close>

theorem every_mutation_refreshes_counterexample:
  "get_next_question (sample_session ''a'' 0) =
     (Inr (Some question_age_en),
      (sample_session ''a'' 0)\<lparr>current_stage := ''info_collection'', asked_questions := [''age'']\<rparr>)
   \<and> snd (get_next_question (sample_session ''a'' 0)) \<noteq> sample_session ''a'' 0
   \<and> last_activity (sample_session ''a'' 0) = 0
   \<and> last_activity (snd (get_next_question (sample_session ''a'' 0))) = 0"
  by (simp add: get_next_question_def sample_session_def question_order_def new_profile_def
      question_text_def QUESTIONS_def subscript_def localized_def)

text \<open>
  Claim C7, amended. \<open>update_user_profile\<close> sets \<open>last_activity\<close> to the current time
  whenever it writes the attribute, that is when \<open>hasattr\<close> holds and \<open>setattr\<close> returns;
  when \<open>setattr\<close> raises, or the profile has no such attribute, it leaves the session as
  it was. The message appends (\<open>_add_message\<close>, \<open>add_user_message\<close>,
  \<open>add_assistant_message\<close>) and \<open>transition_to_guidance\<close> set \<open>last_activity\<close> to the
  current time; \<open>transition_to_eligibility\<close> does so when the information is complete
  and leaves the session as it was otherwise.
\<close>

theorem listed_mutations_refresh:
  "(hasattr (user_profile s) field \<and> setattr (user_profile s) field v = Inr p \<longrightarrow>
       update_user_profile hasattr setattr now s field v
         = (Inr (), s\<lparr>user_profile := p, last_activity := now\<rparr>)
       \<and> last_activity (snd (update_user_profile hasattr setattr now s field v)) = now)
   \<and> (hasattr (user_profile s) field \<and> setattr (user_profile s) field v = Inl e \<longrightarrow>
       update_user_profile hasattr setattr now s field v = (Inl e, s))
   \<and> (\<not> hasattr (user_profile s) field \<longrightarrow>
       update_user_profile hasattr setattr now s field v = (Inr (), s))
   \<and> last_activity (add_message now s r c) = now
   \<and> last_activity (add_user_message now s c) = now
   \<and> last_activity (add_assistant_message now s c) = now
   \<and> (is_information_complete s \<longrightarrow>
       current_stage (transition_to_eligibility now s) = ''eligibility''
       \<and> last_activity (transition_to_eligibility now s) = now)
   \<and> (\<not> is_information_complete s \<longrightarrow> transition_to_eligibility now s = s)
   \<and> current_stage (transition_to_guidance now s) = ''guidance''
   \<and> last_activity (transition_to_guidance now s) = now"
  by (simp add: update_user_profile_def add_message_def add_user_message_def
      add_assistant_message_def transition_to_eligibility_def transition_to_guidance_def)

text \<open>
  With the instance for a \<open>UserProfile\<close> object, a write to any of the seven fields is
  such a write, whatever else the object has.
\<close>

lemma field_has_attribute:
  "attr \<in> set profile_fields \<Longrightarrow> object_hasattr others p attr"
  by (simp add: object_hasattr_def)

lemma field_write_returns:
  assumes "attr \<in> set profile_fields"
  shows "\<exists>p'. object_setattr others p attr v = Inr p'"
proof -
  from assms have "attr = ''age'' \<or> attr = ''state'' \<or> attr = ''education_level''
    \<or> attr = ''income_range'' \<or> attr = ''category'' \<or> attr = ''occupation''
    \<or> attr = ''gender''"
    by (simp add: profile_fields_def)
  then show ?thesis
    by (elim disjE) (simp_all add: object_setattr_def)
qed

lemma written_attribute_refreshes:
  "hasattr (user_profile s) attr \<Longrightarrow> setattr (user_profile s) attr v = Inr p \<Longrightarrow>
     fst (update_user_profile hasattr setattr now s attr v) = Inr ()
     \<and> last_activity (snd (update_user_profile hasattr setattr now s attr v)) = now"
  by (simp add: update_user_profile_def)

lemma field_write_refreshes:
  assumes "attr \<in> set profile_fields"
  shows "fst (update_user_profile (object_hasattr others) (object_setattr others) now s attr v)
           = Inr ()
       \<and> last_activity
           (snd (update_user_profile (object_hasattr others) (object_setattr others) now s attr v))
           = now"
proof -
  from assms have has: "object_hasattr others (user_profile s) attr"
    by (rule field_has_attribute)
  from field_write_returns[OF assms]
  obtain p where "object_setattr others (user_profile s) attr v = Inr p" ..
  with has show ?thesis
    by (rule written_attribute_refreshes)
qed

text \<open>
  A new session at time 7, for every object whatever its other attributes: the write
  of 25 to \<open>age\<close> refreshes; a write to the method \<open>get_missing_fields\<close>, which raises,
  and a write to \<open>height\<close>, which is no attribute, leave the session as it was; so does
  the transition to eligibility before age and state are known, and it refreshes once
  they are.
\<close>

theorem listed_mutations_refresh_witness:
  "\<forall>others e.
     update_user_profile (object_hasattr others) (object_setattr others) 7
         (sample_session ''a'' 0) ''age'' (Some 25, None)
       = (Inr (), (sample_session ''a'' 0)
            \<lparr>user_profile := new_profile\<lparr>age := Some 25\<rparr>, last_activity := 7\<rparr>)
     \<and> update_user_profile
         (object_hasattr (others(''get_missing_fields'' := Refused e)))
         (object_setattr (others(''get_missing_fields'' := Refused e))) 7
         (sample_session ''a'' 0) ''get_missing_fields'' (Some 25, None)
       = (Inl e, sample_session ''a'' 0)
     \<and> update_user_profile
         (object_hasattr (others(''height'' := NoAttribute e)))
         (object_setattr (others(''height'' := NoAttribute e))) 7
         (sample_session ''a'' 0) ''height'' (Some 180, None)
       = (Inr (), sample_session ''a'' 0)
     \<and> transition_to_eligibility 7 (sample_session ''a'' 0) = sample_session ''a'' 0
     \<and> last_activity (transition_to_eligibility 7
          ((sample_session ''a'' 0)
             \<lparr>user_profile := new_profile\<lparr>age := Some 25, state := Some ''Goa''\<rparr>\<rparr>)) = 7"
proof (intro allI)
  fix others :: other_attributes and e :: error
  let ?s = "sample_session ''a'' 0"
  let ?raising = "others(''get_missing_fields'' := Refused e)"
  let ?absent = "others(''height'' := NoAttribute e)"
  have a: "object_hasattr others (user_profile ?s) ''age''
      \<and> object_setattr others (user_profile ?s) ''age'' (Some 25, None)
          = Inr (new_profile\<lparr>age := Some 25\<rparr>)"
    by (simp add: object_hasattr_def object_setattr_def profile_fields_def sample_session_def)
  have b: "object_hasattr ?raising (user_profile ?s) ''get_missing_fields''
      \<and> object_setattr ?raising (user_profile ?s) ''get_missing_fields'' (Some 25, None) = Inl e"
    by (simp add: object_hasattr_def object_setattr_def)
  have c: "\<not> object_hasattr ?absent (user_profile ?s) ''height''"
    by (simp add: object_hasattr_def profile_fields_def)
  have d: "\<not> is_information_complete ?s"
    by (simp add: is_information_complete_def sample_session_def new_profile_def)
  have f: "is_information_complete
      (?s\<lparr>user_profile := new_profile\<lparr>age := Some 25, state := Some ''Goa''\<rparr>\<rparr>)"
    by (simp add: is_information_complete_def)
  note inst = listed_mutations_refresh[where setattr = "object_setattr others" and hasattr = "object_hasattr others"
      and s = ?s and field = "''age''" and v = "(Some 25, None)"
      and p = "new_profile\<lparr>age := Some 25\<rparr>" and now = 7 and e = e
      and r = "''user''" and c = "''hello''"]
  have w1: "update_user_profile (object_hasattr others) (object_setattr others) 7 ?s ''age''
         (Some 25, None)
       = (Inr (), ?s\<lparr>user_profile := new_profile\<lparr>age := Some 25\<rparr>, last_activity := 7\<rparr>)"
    using inst a by blast
  have w4: "transition_to_eligibility 7 ?s = ?s"
    using inst d by blast
  have w2: "update_user_profile (object_hasattr ?raising) (object_setattr ?raising) 7 ?s
         ''get_missing_fields'' (Some 25, None) = (Inl e, ?s)"
    using listed_mutations_refresh[where setattr = "object_setattr ?raising" and hasattr = "object_hasattr ?raising"
      and s = ?s and field = "''get_missing_fields''" and v = "(Some 25, None)"
      and p = "new_profile" and now = 7 and e = e and r = "''user''" and c = "''hello''"] b
    by blast
  have w3: "update_user_profile (object_hasattr ?absent) (object_setattr ?absent) 7 ?s ''height''
         (Some 180, None) = (Inr (), ?s)"
    using listed_mutations_refresh[where setattr = "object_setattr ?absent" and hasattr = "object_hasattr ?absent"
      and s = ?s and field = "''height''" and v = "(Some 180, None)"
      and p = "new_profile" and now = 7 and e = e and r = "''user''" and c = "''hello''"] c
    by blast
  have w5: "last_activity (transition_to_eligibility 7
          (?s\<lparr>user_profile := new_profile\<lparr>age := Some 25, state := Some ''Goa''\<rparr>\<rparr>)) = 7"
    using listed_mutations_refresh[where setattr = "object_setattr others" and hasattr = "object_hasattr others"
      and s = "?s\<lparr>user_profile := new_profile\<lparr>age := Some 25, state := Some ''Goa''\<rparr>\<rparr>"
      and field = "''age''" and v = "(Some 25, None)"
      and p = "new_profile" and now = 7 and e = e and r = "''user''" and c = "''hello''"] f
    by blast
  from w1 w2 w3 w4 w5
  show "update_user_profile (object_hasattr others) (object_setattr others) 7 ?s ''age''
         (Some 25, None)
       = (Inr (), ?s\<lparr>user_profile := new_profile\<lparr>age := Some 25\<rparr>, last_activity := 7\<rparr>)
     \<and> update_user_profile (object_hasattr ?raising) (object_setattr ?raising) 7 ?s
         ''get_missing_fields'' (Some 25, None) = (Inl e, ?s)
     \<and> update_user_profile (object_hasattr ?absent) (object_setattr ?absent) 7 ?s ''height''
         (Some 180, None) = (Inr (), ?s)
     \<and> transition_to_eligibility 7 ?s = ?s
     \<and> last_activity (transition_to_eligibility 7
          (?s\<lparr>user_profile := new_profile\<lparr>age := Some 25, state := Some ''Goa''\<rparr>\<rparr>)) = 7"
    by (intro conjI)
qed

section \<open>Properties of the knowledge base\<close>

subsection \<open>Building the index\<close>

text \<open>
  Claim C8. \<open>index_schemes\<close> with an empty list raises \<open>ValueError\<close> and leaves the
  knowledge base as it was: the stored schemes and the index are those from before the
  call. With a list that is not empty it succeeds and replaces both.
\<close>

theorem index_schemes_empty_is_rejected:
  "index_schemes encode [] kb = (Inl (ValueError ''Cannot index empty scheme list''), kb)
   \<and> schemes (snd (index_schemes encode [] kb)) = schemes kb
   \<and> index (snd (index_schemes encode [] kb)) = index kb
   \<and> (ss \<noteq> [] \<longrightarrow>
        fst (index_schemes encode ss kb) = Inr ()
        \<and> schemes (snd (index_schemes encode ss kb)) = ss
        \<and> index (snd (index_schemes encode ss kb))
            = map (\<lambda>s. encode (create_searchable_text s)) ss)"
  by (simp add: index_schemes_def)

text \<open>
  An empty list against the base built from three schemes, and the building of that
  base.
\<close>

theorem index_schemes_empty_is_rejected_witness:
  "three_schemes \<noteq> []
   \<and> index_schemes length_encoder [] sample_base
       = (Inl (ValueError ''Cannot index empty scheme list''), sample_base)
   \<and> schemes (snd (index_schemes length_encoder three_schemes empty_base)) = three_schemes
   \<and> index (snd (index_schemes length_encoder three_schemes empty_base)) = [[14], [16], [13]]"
proof -
  have ne: "three_schemes \<noteq> []" by (simp add: three_schemes_def)
  from index_schemes_empty_is_rejected[of length_encoder sample_base three_schemes] ne
    index_schemes_empty_is_rejected[of length_encoder empty_base three_schemes]
  show ?thesis
    by (simp add: three_schemes_def length_encoder_def create_searchable_text_def
        sample_scheme_def)
qed

subsection \<open>Filters\<close>

lemma matches_filters_restrict:
  assumes "P ''state''" and "P ''min_age''" and "P ''max_age''"
  shows "matches_filters to_int s (filter (\<lambda>kv. P (fst kv)) fs) = matches_filters to_int s fs"
proof (induction fs)
  case Nil
  show ?case by simp
next
  case (Cons kv fs)
  obtain key v where kv: "kv = (key, v)" by (cases kv)
  show ?case
  proof (cases "P key")
    case True
    then show ?thesis
      unfolding kv by (simp add: Cons.IH split: option.splits sum.splits)
  next
    case False
    with assms have "key \<noteq> ''state''" "key \<noteq> ''min_age''" "key \<noteq> ''max_age''"
      by auto
    with False show ?thesis
      unfolding kv by (simp add: Cons.IH)
  qed
qed

lemma admitted_restrict:
  assumes "P ''state''" and "P ''min_age''" and "P ''max_age''"
  shows "admitted to_int s (Some (filter (\<lambda>kv. P (fst kv)) fs)) = admitted to_int s (Some fs)"
proof -
  let ?fs = "filter (\<lambda>kv. P (fst kv)) fs"
  have same: "matches_filters to_int s ?fs = matches_filters to_int s fs"
    using assms by (rule matches_filters_restrict)
  show ?thesis
  proof (cases "fs = []")
    case True
    then show ?thesis by simp
  next
    case False
    show ?thesis
    proof (cases "?fs = []")
      case True
      with same have "matches_filters to_int s fs = Inr True" by simp
      with True False show ?thesis by (simp add: admitted_def)
    next
      case nonempty: False
      with False same show ?thesis by (simp add: admitted_def)
    qed
  qed
qed

lemma collect_results_cong:
  assumes "\<And>s. admitted to_int s fo = admitted to_int s fo'"
  shows "collect_results to_int ss fo top_k found acc
       = collect_results to_int ss fo' top_k found acc"
proof (induction found arbitrary: acc)
  case Nil
  show ?case by simp
next
  case (Cons c found)
  obtain idx d where c: "c = (idx, d)" by (cases c)
  show ?case
    unfolding c by (simp add: assms Cons.IH Let_def split: sum.splits)
qed

lemma retrieve_schemes_restrict:
  assumes "P ''state''" and "P ''min_age''" and "P ''max_age''"
  shows "retrieve_schemes encode search to_int kb query top_k (Some (filter (\<lambda>kv. P (fst kv)) fs))
       = retrieve_schemes encode search to_int kb query top_k (Some fs)"
proof -
  have same: "collect_results to_int ss (Some (filter (\<lambda>kv. P (fst kv)) fs)) top_k found []
      = collect_results to_int ss (Some fs) top_k found []" for ss found
    by (rule collect_results_cong) (rule admitted_restrict[OF assms])
  show ?thesis
    by (simp add: retrieve_schemes_def same cong: sum.case_cong)
qed

text \<open>
  Claim C10. \<open>_matches_filters\<close> ignores the key \<open>category\<close>: for every scheme and filter
  dictionary the outcome is the one for the dictionary without its \<open>category\<close> entries,
  whatever their values, and the one for the dictionary reduced to the keys \<open>state\<close>,
  \<open>min_age\<close> and \<open>max_age\<close>; the same holds for the outcome of \<open>retrieve_schemes\<close>.
  No candidate is dropped for a \<open>category\<close> entry.
\<close>

theorem category_filter_is_ignored:
  "matches_filters to_int s fs = matches_filters to_int s (without_category fs)
   \<and> matches_filters to_int s fs = matches_filters to_int s (checked_keys_only fs)
   \<and> matches_filters to_int s (before @ (''category'', v) # after)
       = matches_filters to_int s (before @ after)
   \<and> retrieve_schemes encode search to_int kb query top_k (Some fs)
       = retrieve_schemes encode search to_int kb query top_k (Some (without_category fs))
   \<and> retrieve_schemes encode search to_int kb query top_k (Some fs)
       = retrieve_schemes encode search to_int kb query top_k (Some (checked_keys_only fs))"
proof (intro conjI)
  have wc: "matches_filters to_int s (without_category gs) = matches_filters to_int s gs" for gs
    unfolding without_category_def
    by (rule matches_filters_restrict[where P = "\<lambda>k. k \<noteq> ''category''"]) simp_all
  show "matches_filters to_int s fs = matches_filters to_int s (without_category fs)"
    by (simp only: wc)
  show "matches_filters to_int s fs = matches_filters to_int s (checked_keys_only fs)"
    unfolding checked_keys_only_def
    by (rule matches_filters_restrict[symmetric,
          where P = "\<lambda>k. k = ''state'' \<or> k = ''min_age'' \<or> k = ''max_age''"]) simp_all
  have "matches_filters to_int s (before @ (''category'', v) # after)
      = matches_filters to_int s (without_category (before @ (''category'', v) # after))"
    by (simp only: wc)
  also have "without_category (before @ (''category'', v) # after)
      = without_category (before @ after)"
    by (simp add: without_category_def)
  finally show "matches_filters to_int s (before @ (''category'', v) # after)
       = matches_filters to_int s (before @ after)"
    by (simp only: wc)
  show "retrieve_schemes encode search to_int kb query top_k (Some fs)
       = retrieve_schemes encode search to_int kb query top_k (Some (without_category fs))"
    unfolding without_category_def
    by (rule retrieve_schemes_restrict[symmetric, where P = "\<lambda>k. k \<noteq> ''category''"])
      simp_all
  show "retrieve_schemes encode search to_int kb query top_k (Some fs)
       = retrieve_schemes encode search to_int kb query top_k (Some (checked_keys_only fs))"
    unfolding checked_keys_only_def
    by (rule retrieve_schemes_restrict[symmetric,
          where P = "\<lambda>k. k = ''state'' \<or> k = ''min_age'' \<or> k = ''max_age''"]) simp_all
qed

text \<open>
  With a \<open>category\<close> entry in the dictionary, the scheme restricted to Goa matches the
  state Goa and fails the state Kerala.
\<close>

theorem category_filter_is_ignored_witness:
  "matches_filters decimal_to_int (sample_scheme ''ab'' (unrestricted\<lparr>states := Some [''Goa'']\<rparr>))
      [(''category'', PyStr ''education''), (''state'', PyStr ''Goa'')] = Inr True
   \<and> matches_filters decimal_to_int (sample_scheme ''ab'' (unrestricted\<lparr>states := Some [''Goa'']\<rparr>))
      [(''category'', PyStr ''education''), (''state'', PyStr ''Kerala'')] = Inr False"
  using category_filter_is_ignored[of decimal_to_int
      "sample_scheme ''ab'' (unrestricted\<lparr>states := Some [''Goa'']\<rparr>)"
      "[(''category'', PyStr ''education''), (''state'', PyStr ''Goa'')]"]
    category_filter_is_ignored[of decimal_to_int
      "sample_scheme ''ab'' (unrestricted\<lparr>states := Some [''Goa'']\<rparr>)"
      "[(''category'', PyStr ''education''), (''state'', PyStr ''Kerala'')]"]
  by (simp add: without_category_def sample_scheme_def unrestricted_def)

subsection \<open>Retrieval\<close>


























end
